theory Spec2Isabelle
  imports Complex_Main "HOL-Library.Char_ord" "HOL-Library.List_Lexorder"
    "HOL-Library.Product_Lexorder"
begin

section \<open>GeoBaseMain.py: the launcher of GeoBase\<close>

text \<open>
  The launcher is Python 2. A \<open>str\<close> is a byte string and is modelled as \<open>string\<close>
  (a list of 8-bit \<open>char\<close>s); a \<open>unicode\<close> object is modelled as the list of its
  text units: code points on a wide build of the interpreter, 16-bit units on a narrow
  build, where a character above \<open>0xFFFF\<close> is a pair of surrogates. The data store
  (\<open>GeoBases.GeoBaseModule.GeoBase\<close>), \<open>termcolor.colored\<close>, the terminal probe and the
  floating-point conversions are collaborators of the launcher: they are parameters of
  the model (the records \<open>geobase\<close> and \<open>env\<close> below), never fixed by it.
\<close>

subsection \<open>Byte strings\<close>

type_synonym key = string
type_synonym field = string
type_synonym unicode = "nat list"

definition nl :: string where
  "nl = [CHR 0x0A]"

definition tab :: string where
  "tab = [CHR 0x09]"

text \<open>\<open>sep.join(xs)\<close>\<close>

fun join :: "string \<Rightarrow> string list \<Rightarrow> string" where
  "join sep [] = []"
| "join sep [x] = x"
| "join sep (x # y # ys) = x @ sep @ join sep (y # ys)"

text \<open>The characters that \<open>str.strip()\<close>, \<open>str.split()\<close>, \<open>int\<close> and \<open>float\<close> treat as blank.\<close>

definition is_space :: "char \<Rightarrow> bool" where
  "is_space c = (c \<in> set [CHR 0x20, CHR 0x09, CHR 0x0A, CHR 0x0B, CHR 0x0C, CHR 0x0D])"

definition is_digit :: "char \<Rightarrow> bool" where
  "is_digit c = (c \<in> set ''0123456789'')"

text \<open>\<open>s.strip(chars)\<close>, with the set of characters given as a predicate.\<close>

definition strip_by :: "(char \<Rightarrow> bool) \<Rightarrow> string \<Rightarrow> string" where
  "strip_by p s = rev (dropWhile p (rev (dropWhile p s)))"

definition py_strip :: "string \<Rightarrow> string" where
  "py_strip s = strip_by is_space s"

text \<open>\<open>s.split(',')\<close>: empty tokens are kept, the empty string gives one empty token.\<close>

fun split_on :: "char \<Rightarrow> string \<Rightarrow> string list" where
  "split_on d [] = [[]]"
| "split_on d (c # cs) =
     (if c = d then [] # split_on d cs
      else (case split_on d cs of t # ts \<Rightarrow> (c # t) # ts | [] \<Rightarrow> [[c]]))"

text \<open>\<open>s.split()\<close>: the maximal runs of non-blank characters.\<close>

fun split_ws_acc :: "string \<Rightarrow> string \<Rightarrow> string list" where
  "split_ws_acc acc [] = (if acc = [] then [] else [rev acc])"
| "split_ws_acc acc (c # cs) =
     (if is_space c then (if acc = [] then [] else [rev acc]) @ split_ws_acc [] cs
      else split_ws_acc (c # acc) cs)"

definition split_ws :: "string \<Rightarrow> string list" where
  "split_ws s = split_ws_acc [] s"

text \<open>\<open>'%-15s' % s\<close> on byte strings and on text: pad with blanks on the right.\<close>

definition ljust :: "nat \<Rightarrow> 'a \<Rightarrow> 'a list \<Rightarrow> 'a list" where
  "ljust w blank s = s @ replicate (w - length s) blank"

text \<open>Decimal rendering of a non-negative integer, \<open>'%d' % n\<close>.\<close>

definition digit_char :: "nat \<Rightarrow> char" where
  "digit_char d = char_of (48 + d)"

function str_nat :: "nat \<Rightarrow> string" where
  "str_nat n = (if n < 10 then [digit_char n] else str_nat (n div 10) @ [digit_char (n mod 10)])"
  by pat_completeness auto
termination
  by (relation "measure (\<lambda>n. n)") auto

declare str_nat.simps [simp del]

definition str_int :: "int \<Rightarrow> string" where
  "str_int i = (if i < 0 then CHR ''-'' # str_nat (nat (- i)) else str_nat (nat i))"

subsection \<open>UTF-8, as \<open>s.decode('utf8')\<close> and \<open>u.encode('utf8')\<close> of Python 2\<close>

definition is_cont :: "char \<Rightarrow> bool" where
  "is_cont c = (128 \<le> (of_char c :: nat) \<and> (of_char c :: nat) < 192)"

definition cont_bits :: "char \<Rightarrow> nat" where
  "cont_bits c = of_char c - 128"

fun utf8_encode_char :: "nat \<Rightarrow> string" where
  "utf8_encode_char cp =
     (if cp < 128 then [char_of cp]
      else if cp < 2048 then [char_of (192 + cp div 64), char_of (128 + cp mod 64)]
      else if cp < 65536 then
        [char_of (224 + cp div 4096), char_of (128 + (cp div 64) mod 64),
         char_of (128 + cp mod 64)]
      else
        [char_of (240 + cp div 262144), char_of (128 + (cp div 4096) mod 64),
         char_of (128 + (cp div 64) mod 64), char_of (128 + cp mod 64)])"

declare utf8_encode_char.simps [simp del]

text \<open>
  \<open>u.encode('utf8')\<close>: a high surrogate followed by a low surrogate is encoded as the one
  character they stand for, every other unit on its own (a lone surrogate as three bytes).
\<close>

definition is_high_surrogate :: "nat \<Rightarrow> bool" where
  "is_high_surrogate ch = (55296 \<le> ch \<and> ch \<le> 56319)"

definition is_low_surrogate :: "nat \<Rightarrow> bool" where
  "is_low_surrogate ch = (56320 \<le> ch \<and> ch \<le> 57343)"

definition is_surrogate :: "nat \<Rightarrow> bool" where
  "is_surrogate ch = (is_high_surrogate ch \<or> is_low_surrogate ch)"

fun utf8_encode :: "unicode \<Rightarrow> string" where
  "utf8_encode [] = []"
| "utf8_encode [ch] = utf8_encode_char ch"
| "utf8_encode (ch # ch2 # r) =
     (if is_high_surrogate ch \<and> is_low_surrogate ch2 then
        utf8_encode_char ((ch - 55296) * 1024 + (ch2 - 56320) + 65536) @ utf8_encode r
      else utf8_encode_char ch @ utf8_encode (ch2 # r))"

text \<open>
  One character is decoded from the front of the bytes: the code point and the rest, or
  \<open>None\<close> where Python raises \<open>UnicodeDecodeError\<close> (a stray or missing continuation
  byte, an overlong form, a lead byte above \<open>0xF4\<close>, a value above \<open>0x10FFFF\<close>).
  Python 2 accepts the surrogate range.
\<close>

fun utf8_decode_char :: "string \<Rightarrow> (nat \<times> string) option" where
  "utf8_decode_char [] = None"
| "utf8_decode_char (b0 # bs) =
     (let n0 = (of_char b0 :: nat) in
      if n0 < 128 then Some (n0, bs)
      else if n0 < 194 then None
      else if n0 < 224 then
        (case bs of
           b1 # r \<Rightarrow> if is_cont b1 then Some ((n0 - 192) * 64 + cont_bits b1, r) else None
         | _ \<Rightarrow> None)
      else if n0 < 240 then
        (case bs of
           b1 # b2 # r \<Rightarrow>
             (let cp = (n0 - 224) * 4096 + cont_bits b1 * 64 + cont_bits b2 in
              if is_cont b1 \<and> is_cont b2 \<and> 2048 \<le> cp then Some (cp, r) else None)
         | _ \<Rightarrow> None)
      else if n0 < 245 then
        (case bs of
           b1 # b2 # b3 # r \<Rightarrow>
             (let cp = (n0 - 240) * 262144 + cont_bits b1 * 4096 + cont_bits b2 * 64
                         + cont_bits b3 in
              if is_cont b1 \<and> is_cont b2 \<and> is_cont b3 \<and> 65536 \<le> cp \<and> cp < 1114112
              then Some (cp, r) else None)
         | _ \<Rightarrow> None)
      else None)"

text \<open>
  The text units of one decoded character: the code point itself, or on a narrow build
  the two surrogates of a code point above \<open>0xFFFF\<close>.
\<close>

definition units_of :: "bool \<Rightarrow> nat \<Rightarrow> unicode" where
  "units_of narrow cp =
     (if narrow \<and> 65536 \<le> cp
      then [55296 + (cp - 65536) div 1024, 56320 + (cp - 65536) mod 1024]
      else [cp])"

function utf8_decode :: "bool \<Rightarrow> string \<Rightarrow> unicode option" where
  "utf8_decode narrow bs =
     (if bs = [] then Some []
      else (case utf8_decode_char bs of
              None \<Rightarrow> None
            | Some (cp, r) \<Rightarrow>
                (case utf8_decode narrow r of
                   None \<Rightarrow> None
                 | Some u \<Rightarrow> Some (units_of narrow cp @ u))))"
  by pat_completeness auto
termination
proof (relation "measure (\<lambda>(narrow, bs). length bs)")
  show "wf (measure (\<lambda>(narrow, bs). length bs))" by simp
next
  fix narrow :: bool and bs :: string and x2 x y
  assume "bs \<noteq> []" and "utf8_decode_char bs = Some x2" and "(x, y) = x2"
  then show "((narrow, y), (narrow, bs)) \<in> measure (\<lambda>(narrow, bs). length bs)"
    by (cases bs) (auto simp: Let_def split: if_splits list.splits)
qed

declare utf8_decode.simps [simp del]

subsection \<open>Output, exits and exceptions\<close>

text \<open>
  \<open>colored(text, color, on_color, attrs)\<close> of termcolor is kept symbolic: a coloured
  segment holds the text and the style it was given. Standard output is the sequence of
  segments written, the error stream the sequence of texts written.
\<close>

type_synonym color = "string \<times> string option \<times> string list"

datatype seg = Raw string | Colored string color

datatype event = Out seg | Err string | StoreUpdate

datatype py_exc = ValueError | UnicodeDecodeError

datatype failure = SysExit nat | PyRaise py_exc

text \<open>A computation: what it wrote, and its value or the exit or exception that ended it.\<close>

type_synonym 'a io = "event list \<times> (failure + 'a)"

definition io_ret :: "'a \<Rightarrow> 'a io" where
  "io_ret x = ([], Inr x)"

definition io_fail :: "failure \<Rightarrow> 'a io" where
  "io_fail e = ([], Inl e)"

definition io_bind :: "'a io \<Rightarrow> ('a \<Rightarrow> 'b io) \<Rightarrow> 'b io" where
  "io_bind m f =
     (case m of
        (es, Inl e) \<Rightarrow> (es, Inl e)
      | (es, Inr x) \<Rightarrow> (case f x of (es', r) \<Rightarrow> (es @ es', r)))"

text \<open>\<open>if cond: body\<close> for a body run for its effect.\<close>

definition io_when :: "bool \<Rightarrow> unit io \<Rightarrow> unit io" where
  "io_when b m = (if b then m else io_ret ())"

text \<open>\<open>for x in xs: f(x)\<close>\<close>

fun for_each :: "('a \<Rightarrow> unit io) \<Rightarrow> 'a list \<Rightarrow> unit io" where
  "for_each f [] = io_ret ()"
| "for_each f (x # xs) = io_bind (f x) (\<lambda>_. for_each f xs)"

definition stdout_write :: "seg list \<Rightarrow> unit io" where
  "stdout_write ss = (map Out ss, Inr ())"

text \<open>\<open>print s\<close> and \<open>print >> sys.stderr, s\<close>\<close>

definition py_print :: "string \<Rightarrow> unit io" where
  "py_print s = ([Out (Raw (s @ nl))], Inr ())"

definition py_print_err :: "string \<Rightarrow> unit io" where
  "py_print_err s = ([Err (s @ nl)], Inr ())"

subsection \<open>getTermSize\<close>

text \<open>
  The argument is what \<open>stty size\<close> printed, already read as (rows, columns), or
  \<open>None\<close> when it printed nothing.
\<close>

definition getTermSize :: "(nat \<times> nat) option \<Rightarrow> nat \<times> nat" where
  "getTermSize probe = (case probe of None \<Rightarrow> (80, 160) | Some p \<Rightarrow> p)"

subsection \<open>RotatingColors\<close>

record RotatingColors =
  current :: nat

definition availables :: "color list" where
  "availables = [(''cyan'', None, []), (''white'', Some ''on_grey'', [])]"

definition new_colors :: RotatingColors where
  "new_colors = \<lparr>current = 0\<rparr>"

definition next_color :: "RotatingColors \<Rightarrow> RotatingColors" where
  "next_color c =
     (let n = current c + 1 in c\<lparr>current := (if n = length availables then 0 else n)\<rparr>)"

text \<open>\<open>current\<close> starts at 0 and \<open>next_color\<close> keeps it below 2, so the index is in range.\<close>

definition get_color :: "RotatingColors \<Rightarrow> color" where
  "get_color c = availables ! current c"

definition getEmph :: color where
  "getEmph = (''white'', Some ''on_blue'', [])"

definition getHeader :: color where
  "getHeader = (''red'', None, [])"

subsection \<open>fixed_width\<close>

text \<open>
  The first argument tells whether the interpreter is a narrow build; the others are
  those of the source.
\<close>

definition fixed_width ::
  "bool \<Rightarrow> string \<Rightarrow> color \<Rightarrow> nat \<Rightarrow> nat option \<Rightarrow> failure + seg" where
  "fixed_width narrow s col lim' truncate' =
     (let t = (case truncate' of None \<Rightarrow> 1000 | Some t \<Rightarrow> t) in
      case utf8_decode narrow s of
        None \<Rightarrow> Inl (PyRaise UnicodeDecodeError)
      | Some u \<Rightarrow> Inr (Colored (utf8_encode (ljust lim' 32 (take t u))) col))"

subsection \<open>The data store and the environment\<close>

text \<open>
  The store the launcher is given: \<open>all_keys\<close> is \<open>iter(g)\<close>, \<open>contains g k\<close> is
  \<open>k in g\<close>, \<open>data_name\<close> and \<open>source\<close> are \<open>g._data\<close> and \<open>g._source\<close>, the
  \<open>g_fields\<close> is \<open>g.fields\<close>, the others are the methods of the same name. \<open>'f\<close> is the type of
  Python floats.
\<close>

record 'f geobase =
  data_name :: string
  source :: string
  g_fields :: "field list"
  all_keys :: "key list"
  contains :: "key \<Rightarrow> bool"
  get :: "key \<Rightarrow> field \<Rightarrow> string"
  getLocation :: "key \<Rightarrow> ('f \<times> 'f) option"
  hasTrepSupport :: bool
  hasGeoSupport :: bool
  trepGet :: "string \<Rightarrow> string \<Rightarrow> key list \<Rightarrow> bool \<Rightarrow> ('f \<times> key) list"
  getKeysWhere :: "field \<Rightarrow> string \<Rightarrow> key list \<Rightarrow> key list"
  findNearPoint :: "'f \<times> 'f \<Rightarrow> 'f \<Rightarrow> bool \<Rightarrow> key list \<Rightarrow> ('f \<times> key) list"
  findClosestFromPoint :: "'f \<times> 'f \<Rightarrow> int \<Rightarrow> bool \<Rightarrow> key list \<Rightarrow> ('f \<times> key) list"
  fuzzyGet :: "string \<Rightarrow> field \<Rightarrow> 'f \<Rightarrow> key list \<Rightarrow> ('f \<times> key) list"

text \<open>
  What the process is started in: the build of the interpreter (narrow or wide), the
  terminal probe, standard input, \<open>GeoBase.BASES\<close>
  and the constructor \<open>GeoBase(data, verbose)\<close>, the conversions of floats
  (\<open>float(s)\<close>, \<open>'%.3f' % x\<close>, \<open>'%s' % x\<close>) and the text of the elapsed time.
\<close>

record 'f env =
  narrow_build :: bool
  stty_size :: "(nat \<times> nat) option"
  stdin_isatty :: bool
  stdin_rows :: "string list"
  BASES :: "string list"
  GeoBase :: "string \<Rightarrow> bool \<Rightarrow> 'f geobase"
  float_of :: "string \<Rightarrow> 'f"
  fmt3f :: "'f \<Rightarrow> string"
  str_float :: "'f \<Rightarrow> string"
  elapsed :: string

text \<open>
  A score is the position given by \<open>enumerate\<close> or a float computed by the store.
  \<open>'%.3f' % h\<close> of a position prints it with three zero decimals.
\<close>

datatype 'f score = Idx nat | Flt 'f

fun fmt_score :: "'f env \<Rightarrow> 'f score \<Rightarrow> string" where
  "fmt_score env (Idx n) = str_nat n @ ''.000''"
| "fmt_score env (Flt x) = fmt3f env x"

subsection \<open>The strings \<open>float\<close> accepts\<close>

definition lower :: "char \<Rightarrow> char" where
  "lower c = (if 65 \<le> (of_char c :: nat) \<and> (of_char c :: nat) \<le> 90
              then char_of ((of_char c :: nat) + 32) else c)"

definition drop_sign :: "string \<Rightarrow> string" where
  "drop_sign s =
     (case s of [] \<Rightarrow> [] | c # r \<Rightarrow> if c = CHR ''+'' \<or> c = CHR ''-'' then r else s)"

definition exponent_ok :: "string \<Rightarrow> bool" where
  "exponent_ok s =
     (case s of
        [] \<Rightarrow> True
      | c # r \<Rightarrow> (c = CHR ''e'' \<or> c = CHR ''E'')
                 \<and> drop_sign r \<noteq> [] \<and> list_all is_digit (drop_sign r))"

definition decimal_syntax :: "string \<Rightarrow> bool" where
  "decimal_syntax s =
     (let ip = takeWhile is_digit s; r = dropWhile is_digit s in
      case r of
        [] \<Rightarrow> ip \<noteq> []
      | c # r' \<Rightarrow>
          if c = CHR ''.'' then
            (ip \<noteq> [] \<or> takeWhile is_digit r' \<noteq> []) \<and> exponent_ok (dropWhile is_digit r')
          else ip \<noteq> [] \<and> exponent_ok r)"

text \<open>
  \<open>float(s)\<close> returns for these strings and raises \<open>ValueError\<close> for the others:
  blanks around, a sign, then a decimal numeral or one of \<open>inf\<close>, \<open>infinity\<close>, \<open>nan\<close>
  in any case.
\<close>

definition float_syntax :: "string \<Rightarrow> bool" where
  "float_syntax s =
     (let t = drop_sign (py_strip s) in
      map lower t \<in> set [''inf'', ''infinity'', ''nan''] \<or> decimal_syntax t)"

subsection \<open>warn and error\<close>

definition bang :: string where
  "bang = [CHR ''/'', CHR ''!'', CHR 0x5C]"

definition dquote :: string where
  "dquote = [CHR 0x22]"

definition warn :: "string \<Rightarrow> string \<Rightarrow> string \<Rightarrow> string \<Rightarrow> unit io" where
  "warn name a0 a1 a2 =
     io_when (name = ''key'')
       (py_print_err (bang @ '' Key '' @ a0 @ '' was not in GeoBase, for data '' @ dquote @ a1
                        @ dquote @ '' and source '' @ a2))"

fun display_on_two_cols :: "string list \<Rightarrow> unit io" where
  "display_on_two_cols (a # b # r) =
     io_bind (py_print_err (tab @ ljust 15 CHR '' '' a @ tab @ ljust 15 CHR '' '' b))
       (\<lambda>_. display_on_two_cols r)"
| "display_on_two_cols [a] = py_print_err (tab @ ljust 15 CHR '' '' a)"
| "display_on_two_cols [] = io_ret ()"

text \<open>The calls of \<open>error(name, *args)\<close>, one constructor for each name.\<close>

datatype error_call =
    Trep_support
  | Geocode_support string
  | Base string "string list"
  | Property string string "string list"
  | Field string string "string list"
  | Geocode_format string
  | Geocode_unknown string

fun error_message :: "error_call \<Rightarrow> unit io" where
  "error_message Trep_support =
     py_print_err (nl @ bang
       @ '' No opentrep support. Check if opentrep wrapper can import libpyopentrep.'')"
| "error_message (Geocode_support b) =
     py_print_err (nl @ bang @ '' No geocoding support for data type '' @ b @ ''.'')"
| "error_message (Base b bs) =
     io_bind (py_print_err (nl @ bang @ '' Wrong base '' @ dquote @ b @ dquote
                              @ ''. You may select:''))
       (\<lambda>_. display_on_two_cols bs)"
| "error_message (Property p b fs) =
     io_bind (py_print_err (nl @ bang @ '' Wrong property '' @ dquote @ p @ dquote @ ''.''))
       (\<lambda>_. io_bind (py_print_err (''For data type '' @ b @ '', you may select:''))
       (\<lambda>_. display_on_two_cols fs))"
| "error_message (Field f b fs) =
     io_bind (py_print_err (nl @ bang @ '' Wrong field '' @ dquote @ f @ dquote @ ''.''))
       (\<lambda>_. io_bind (py_print_err (''For data type '' @ b @ '', you may select:''))
       (\<lambda>_. display_on_two_cols fs))"
| "error_message (Geocode_format u) =
     py_print_err (nl @ bang @ '' Bad geocode format: '' @ u)"
| "error_message (Geocode_unknown u) =
     py_print_err (nl @ bang @ '' Geocode was unknown for '' @ u)"

definition error :: "error_call \<Rightarrow> 'a io" where
  "error c = io_bind (error_message c) (\<lambda>_. io_fail (SysExit 1))"

subsection \<open>scan_coords\<close>

definition is_paren :: "char \<Rightarrow> bool" where
  "is_paren c = (c = CHR ''('' \<or> c = CHR '')'')"

definition coord_tokens :: "string \<Rightarrow> string list" where
  "coord_tokens u_input = split_on CHR '','' (strip_by is_paren u_input)"

definition scan_coords :: "'f env \<Rightarrow> string \<Rightarrow> 'f geobase \<Rightarrow> bool \<Rightarrow> ('f \<times> 'f) io" where
  "scan_coords env u_input geob verbose =
     (if \<not> list_all float_syntax (coord_tokens u_input) then
        (if \<not> contains geob u_input then
           io_bind (warn ''key'' u_input (data_name geob) (source geob))
             (\<lambda>_. io_fail (SysExit 1))
         else (case getLocation geob u_input of
                 None \<Rightarrow> error (Geocode_unknown u_input)
               | Some coords \<Rightarrow> io_ret coords))
      else
        (case map (float_of env) (coord_tokens u_input) of
           [lat, lng] \<Rightarrow>
             io_bind (io_when verbose
                        (py_print (''Geocode recognized: ('' @ fmt3f env lat @ '', ''
                                     @ fmt3f env lng @ '')'')))
               (\<lambda>_. io_ret (lat, lng))
         | _ \<Rightarrow> error (Geocode_format u_input)))"

subsection \<open>display\<close>

text \<open>
  The width of a column, \<open>min(40, max(25, int(width / float(n+1))))\<close>. The quotient of
  two non-negative integers, truncated, is the integer quotient.
\<close>

definition column_lim :: "nat \<Rightarrow> nat \<Rightarrow> nat" where
  "column_lim width n = min 40 (max 25 (width div (n + 1)))"

definition write_cell :: "failure + seg \<Rightarrow> unit io" where
  "write_cell c = (case c of Inl e \<Rightarrow> io_fail e | Inr s \<Rightarrow> stdout_write [s])"

definition write_label :: "failure + seg \<Rightarrow> unit io" where
  "write_label c = (case c of Inl e \<Rightarrow> io_fail e | Inr s \<Rightarrow> stdout_write [Raw nl, s])"

text \<open>The body of \<open>for f in show\<close> for a field that is not omitted, before \<open>c.next()\<close>.\<close>

definition display_row ::
  "'f env \<Rightarrow> 'f geobase \<Rightarrow> ('f score \<times> key) list \<Rightarrow> nat \<Rightarrow> nat option \<Rightarrow> color \<Rightarrow> field
     \<Rightarrow> unit io" where
  "display_row env geob list_of_things lim' truncate' col f =
     (if f = ''__ref__'' then
        io_bind (write_label (fixed_width (narrow_build env) f getHeader lim' truncate'))
          (\<lambda>_. for_each
                  (\<lambda>(h, _). write_cell (fixed_width (narrow_build env) (fmt_score env h)
                                           getHeader lim' truncate'))
                  list_of_things)
      else
        io_bind (write_label (fixed_width (narrow_build env) f col lim' truncate'))
          (\<lambda>_. for_each
                  (\<lambda>(_, k). write_cell (fixed_width (narrow_build env) (get geob k f)
                                           col lim' truncate'))
                  list_of_things))"

fun display_rows ::
  "'f env \<Rightarrow> 'f geobase \<Rightarrow> ('f score \<times> key) list \<Rightarrow> field set \<Rightarrow> field set \<Rightarrow> nat
     \<Rightarrow> nat option \<Rightarrow> RotatingColors \<Rightarrow> field list \<Rightarrow> unit io" where
  "display_rows env geob list_of_things omit important lim' truncate' c [] = io_ret ()"
| "display_rows env geob list_of_things omit important lim' truncate' c (f # fs) =
     (if f \<notin> omit then
        io_bind (display_row env geob list_of_things lim' truncate'
                   (if f \<in> important then getEmph else get_color c) f)
          (\<lambda>_. display_rows env geob list_of_things omit important lim' truncate'
                  (next_color c) fs)
      else display_rows env geob list_of_things omit important lim' truncate' c fs)"

definition display ::
  "'f env \<Rightarrow> 'f geobase \<Rightarrow> ('f score \<times> key) list \<Rightarrow> field set \<Rightarrow> field list \<Rightarrow> field set
     \<Rightarrow> unit io" where
  "display env geob list_of_things omit show_fields important =
     (if list_of_things = [] then stdout_write [Raw (nl @ ''No elements to display.'' @ nl)]
      else
        (let shown = (if show_fields = [] then ''__ref__'' # g_fields geob else show_fields);
             n = length list_of_things;
             lim' = column_lim (snd (getTermSize (stty_size env))) n;
             truncate' = (if n = 1 then None else Some lim')
         in io_bind (display_rows env geob list_of_things omit important lim' truncate'
                       new_colors shown)
              (\<lambda>_. stdout_write [Raw nl])))"

subsection \<open>display_quiet\<close>

text \<open>The list \<open>l\<close> built for one result.\<close>

fun quiet_cells ::
  "'f env \<Rightarrow> 'f geobase \<Rightarrow> field set \<Rightarrow> 'f score \<Rightarrow> key \<Rightarrow> field list \<Rightarrow> string list" where
  "quiet_cells env geob omit h k [] = []"
| "quiet_cells env geob omit h k (f # fs) =
     (if f \<notin> omit then
        (if f = ''__ref__'' then fmt_score env h else get geob k f)
          # quiet_cells env geob omit h k fs
      else quiet_cells env geob omit h k fs)"

definition display_quiet ::
  "'f env \<Rightarrow> 'f geobase \<Rightarrow> ('f score \<times> key) list \<Rightarrow> field set \<Rightarrow> field list \<Rightarrow> unit io" where
  "display_quiet env geob list_of_things omit show_fields =
     (let shown = (if show_fields = [] then ''__ref__'' # g_fields geob else show_fields) in
      for_each (\<lambda>(h, k).
          if \<not> contains geob k then io_ret ()
          else stdout_write [Raw (join ''^'' (quiet_cells env geob omit h k shown) @ nl)])
        list_of_things)"

subsection \<open>main: the arguments\<close>

text \<open>
  The dictionary \<open>vars(parser.parse_args())\<close>. The order of the flags on the command
  line is not part of it. \<open>show_fields\<close> is \<open>args['show']\<close>; \<open>limit\<close> is the text
  given to \<open>--limit\<close>, which the parser does not convert.
\<close>

record 'f args =
  keys :: "string list"
  base :: string
  fuzzy :: "string option"
  fuzzy_property :: string
  fuzzy_limit :: 'f
  exact :: "string option"
  exact_property :: string
  near :: "string option"
  near_limit :: 'f
  closest :: "string option"
  closest_limit :: int
  trep :: "string list option"
  trep_format :: string
  without_grid :: bool
  quiet :: bool
  verbose :: bool
  omit :: "string list"
  show_fields :: "string list"
  limit :: "string option"
  update :: bool

text \<open>\<open>int(s)\<close> of a byte string: blanks around, a sign, decimal digits.\<close>

definition digit_val :: "char \<Rightarrow> nat" where
  "digit_val c = of_char c - 48"

definition digits_val :: "string \<Rightarrow> nat" where
  "digits_val ds = foldl (\<lambda>acc c. 10 * acc + digit_val c) 0 ds"

definition py_int :: "string \<Rightarrow> int option" where
  "py_int s =
     (let t = py_strip s; d = drop_sign t in
      if d \<noteq> [] \<and> list_all is_digit d then
        Some (if take 1 t = ''-'' then - int (digits_val d) else int (digits_val d))
      else None)"

definition limit_of :: "'f args \<Rightarrow> failure + int option" where
  "limit_of a =
     (case limit a of
        None \<Rightarrow> if quiet a then Inr None else Inr (Some 4)
      | Some s \<Rightarrow> (case py_int s of None \<Rightarrow> Inl (PyRaise ValueError) | Some n \<Rightarrow> Inr (Some n)))"

subsection \<open>main: failing on what the store does not support\<close>

definition failing :: "'f env \<Rightarrow> 'f geobase \<Rightarrow> 'f args \<Rightarrow> unit io" where
  "failing env g a =
     io_bind (io_when (trep a \<noteq> None \<and> \<not> hasTrepSupport g) (error Trep_support)) (\<lambda>_.
     io_bind (io_when ((near a \<noteq> None \<or> closest a \<noteq> None) \<and> \<not> hasGeoSupport g)
                (error (Geocode_support (base a)))) (\<lambda>_.
     io_bind (io_when (exact a \<noteq> None \<and> exact_property a \<notin> set (g_fields g))
                (error (Property (exact_property a) (base a) (g_fields g)))) (\<lambda>_.
     io_bind (io_when (fuzzy a \<noteq> None \<and> fuzzy_property a \<notin> set (g_fields g))
                (error (Property (fuzzy_property a) (base a) (g_fields g)))) (\<lambda>_.
     for_each (\<lambda>field.
         io_when (field \<notin> set (''__ref__'' # g_fields g))
           (error (Field field (base a) (''__ref__'' # g_fields g))))
       (show_fields a @ omit a)))))"

subsection \<open>main: the keys to start from\<close>

definition announce :: "'f env \<Rightarrow> 'f args \<Rightarrow> unit io" where
  "announce env a =
     (if \<not> stdin_isatty env then py_print ''Looking for matches from stdin...''
      else if keys a \<noteq> [] then
        py_print (''Looking for matches from '' @ join '', '' (keys a) @ ''...'')
      else py_print ''Looking for matches from *all* data...'')"

definition initial_keys :: "'f env \<Rightarrow> 'f geobase \<Rightarrow> 'f args \<Rightarrow> key list" where
  "initial_keys env g a =
     (if \<not> stdin_isatty env then concat (map (\<lambda>row. split_ws (py_strip row)) (stdin_rows env))
      else if keys a \<noteq> [] then keys a
      else all_keys g)"

text \<open>\<open>enumerate(ks)\<close>: every key with its position.\<close>

definition enumerate_keys :: "key list \<Rightarrow> ('f score \<times> key) list" where
  "enumerate_keys ks = map (\<lambda>(i, k). (Idx i, k)) (enumerate 0 ks)"

definition ex_keys :: "('f score \<times> key) list \<Rightarrow> key list" where
  "ex_keys res = map snd res"

text \<open>The pairs (score, key) a method of the store returns.\<close>

definition scored :: "('f \<times> key) list \<Rightarrow> ('f score \<times> key) list" where
  "scored res = map (\<lambda>(h, k). (Flt h, k)) res"

subsection \<open>main: chaining the conditions\<close>

definition pipeline ::
  "('f::linorder) env \<Rightarrow> 'f geobase \<Rightarrow> 'f args \<Rightarrow> ('f score \<times> key) list
     \<Rightarrow> ('f score \<times> key) list io" where
  "pipeline env g a res0 =
     (let verbose' = \<not> quiet a; with_grid = \<not> without_grid a in
      io_bind
        (case trep a of
           None \<Rightarrow> io_ret res0
         | Some ws \<Rightarrow>
             io_bind (io_when verbose'
                        (py_print (''Applying opentrep on '' @ dquote @ join '' '' ws @ dquote
                                     @ '' [output '' @ trep_format a @ '']'')))
               (\<lambda>_. io_ret (scored (trepGet g (join '' '' ws) (trep_format a) (ex_keys res0)
                                        verbose'))))
        (\<lambda>res1. io_bind
        (case exact a of
           None \<Rightarrow> io_ret res1
         | Some v \<Rightarrow>
             io_bind (io_when verbose'
                        (py_print (''Applying property '' @ exact_property a @ '' = '' @ dquote
                                     @ v @ dquote)))
               (\<lambda>_. io_ret (enumerate_keys (getKeysWhere g (exact_property a) v (ex_keys res1)))))
        (\<lambda>res2. io_bind
        (case near a of
           None \<Rightarrow> io_ret res2
         | Some u \<Rightarrow>
             io_bind (io_when verbose'
                        (py_print (''Applying near '' @ str_float env (near_limit a) @ '' kms'')))
               (\<lambda>_. io_bind (scan_coords env u g verbose')
               (\<lambda>coords. io_ret (scored (sort (findNearPoint g coords (near_limit a) with_grid
                                                  (ex_keys res2)))))))
        (\<lambda>res3. io_bind
        (case closest a of
           None \<Rightarrow> io_ret res3
         | Some u \<Rightarrow>
             io_bind (io_when verbose'
                        (py_print (''Applying closest '' @ str_int (closest_limit a))))
               (\<lambda>_. io_bind (scan_coords env u g verbose')
               (\<lambda>coords. io_ret (scored (findClosestFromPoint g coords (closest_limit a) with_grid
                                            (ex_keys res3))))))
        (\<lambda>res4.
        (case fuzzy a of
           None \<Rightarrow> io_ret res4
         | Some v \<Rightarrow>
             io_bind (io_when verbose'
                        (py_print (''Applying property '' @ fuzzy_property a @ '' ~ '' @ dquote
                                     @ v @ dquote)))
               (\<lambda>_. io_ret (scored (fuzzyGet g v (fuzzy_property a) (fuzzy_limit a)
                                        (ex_keys res4))))))))))"

subsection \<open>main: display\<close>

text \<open>\<open>res[:n]\<close>, also for a negative \<open>n\<close>, which counts from the end.\<close>

definition py_slice_to :: "int \<Rightarrow> 'a list \<Rightarrow> 'a list" where
  "py_slice_to n xs = (if 0 \<le> n then take (nat n) xs else take (length xs - nat (- n)) xs)"

definition limiter :: "int option \<Rightarrow> 'a list \<Rightarrow> 'a list" where
  "limiter limit' res = (case limit' of None \<Rightarrow> res | Some n \<Rightarrow> py_slice_to n res)"

definition warn_unknown :: "'f geobase \<Rightarrow> ('f score \<times> key) list \<Rightarrow> unit io" where
  "warn_unknown g res =
     for_each (\<lambda>(h, k). io_when (\<not> contains g k) (warn ''key'' k (data_name g) (source g))) res"

definition remove_unknown :: "'f geobase \<Rightarrow> ('f score \<times> key) list \<Rightarrow> ('f score \<times> key) list" where
  "remove_unknown g res = filter (\<lambda>(h, k). contains g k) res"

definition important_of :: "'f args \<Rightarrow> field set" where
  "important_of a =
     (let important = {''__id__''};
          important = (if exact a \<noteq> None then insert (exact_property a) important
                       else important);
          important = (if fuzzy a \<noteq> None then insert (fuzzy_property a) important
                       else important)
      in important)"

definition display_phase ::
  "'f env \<Rightarrow> 'f geobase \<Rightarrow> 'f args \<Rightarrow> int option \<Rightarrow> ('f score \<times> key) list \<Rightarrow> unit io" where
  "display_phase env g a limit' res0 =
     (let res = limiter limit' res0 in
      io_bind (warn_unknown g res) (\<lambda>_.
        if \<not> quiet a then
          io_bind (display env g (remove_unknown g res) (set (omit a)) (show_fields a)
                     (important_of a))
            (\<lambda>_. py_print (nl @ ''Done in '' @ elapsed env))
        else display_quiet env g (remove_unknown g res) (set (omit a)) (show_fields a)))"

subsection \<open>main\<close>

definition main :: "('f::linorder) env \<Rightarrow> 'f args \<Rightarrow> unit io" where
  "main env a =
     (case limit_of a of
        Inl e \<Rightarrow> io_fail e
      | Inr limit' \<Rightarrow>
          io_bind (io_when (base a \<notin> set (BASES env)) (error (Base (base a) (BASES env)))) (\<lambda>_.
          io_bind (io_when (update a) ([StoreUpdate], Inl (SysExit 0))) (\<lambda>_.
          io_bind (io_when (\<not> quiet a) (py_print ''Loading GeoBase...'')) (\<lambda>_.
          (let g = GeoBase env (base a) (verbose a) in
           io_bind (failing env g a) (\<lambda>_.
           io_bind (io_when (\<not> quiet a) (announce env a)) (\<lambda>_.
           io_bind (pipeline env g a (enumerate_keys (initial_keys env g a))) (\<lambda>res.
           display_phase env g a limit' res))))))))"

subsection \<open>The pipeline as the specification describes it\<close>

text \<open>
  The five stages in their priority, each with the parameters the arguments give it
  when it is requested; a requested stage applied to a restriction; and the chain that
  hands the keys of one stage's output to the next stage.
\<close>

datatype stage = TextSearch | ExactMatch | RadiusSearch | NearestNSearch | FuzzyMatch

datatype 'f stage_config =
    TextSearchCfg "string list" string
  | ExactMatchCfg field string
  | RadiusSearchCfg string 'f
  | NearestNSearchCfg string int
  | FuzzyMatchCfg string field 'f

definition stage_priority :: "stage list" where
  "stage_priority = [TextSearch, ExactMatch, RadiusSearch, NearestNSearch, FuzzyMatch]"

fun config_of :: "'f args \<Rightarrow> stage \<Rightarrow> 'f stage_config option" where
  "config_of a TextSearch = map_option (\<lambda>ws. TextSearchCfg ws (trep_format a)) (trep a)"
| "config_of a ExactMatch = map_option (\<lambda>v. ExactMatchCfg (exact_property a) v) (exact a)"
| "config_of a RadiusSearch = map_option (\<lambda>u. RadiusSearchCfg u (near_limit a)) (near a)"
| "config_of a NearestNSearch =
     map_option (\<lambda>u. NearestNSearchCfg u (closest_limit a)) (closest a)"
| "config_of a FuzzyMatch =
     map_option (\<lambda>v. FuzzyMatchCfg v (fuzzy_property a) (fuzzy_limit a)) (fuzzy a)"

fun apply_stage ::
  "('f::linorder) env \<Rightarrow> 'f geobase \<Rightarrow> bool \<Rightarrow> bool \<Rightarrow> 'f stage_config \<Rightarrow> key list
     \<Rightarrow> ('f score \<times> key) list io" where
  "apply_stage env g verbose' with_grid (TextSearchCfg ws fmt) restriction =
     io_bind (io_when verbose'
                (py_print (''Applying opentrep on '' @ dquote @ join '' '' ws @ dquote
                             @ '' [output '' @ fmt @ '']'')))
       (\<lambda>_. io_ret (scored (trepGet g (join '' '' ws) fmt restriction verbose')))"
| "apply_stage env g verbose' with_grid (ExactMatchCfg p v) restriction =
     io_bind (io_when verbose'
                (py_print (''Applying property '' @ p @ '' = '' @ dquote @ v @ dquote)))
       (\<lambda>_. io_ret (enumerate_keys (getKeysWhere g p v restriction)))"
| "apply_stage env g verbose' with_grid (RadiusSearchCfg u radius) restriction =
     io_bind (io_when verbose' (py_print (''Applying near '' @ str_float env radius @ '' kms'')))
       (\<lambda>_. io_bind (scan_coords env u g verbose')
       (\<lambda>coords. io_ret (scored (sort (findNearPoint g coords radius with_grid restriction)))))"
| "apply_stage env g verbose' with_grid (NearestNSearchCfg u n) restriction =
     io_bind (io_when verbose' (py_print (''Applying closest '' @ str_int n)))
       (\<lambda>_. io_bind (scan_coords env u g verbose')
       (\<lambda>coords. io_ret (scored (findClosestFromPoint g coords n with_grid restriction))))"
| "apply_stage env g verbose' with_grid (FuzzyMatchCfg v p min_match) restriction =
     io_bind (io_when verbose'
                (py_print (''Applying property '' @ p @ '' ~ '' @ dquote @ v @ dquote)))
       (\<lambda>_. io_ret (scored (fuzzyGet g v p min_match restriction)))"

fun chain ::
  "('f::linorder) env \<Rightarrow> 'f geobase \<Rightarrow> bool \<Rightarrow> bool \<Rightarrow> 'f stage_config list
     \<Rightarrow> ('f score \<times> key) list \<Rightarrow> ('f score \<times> key) list io" where
  "chain env g verbose' with_grid [] res = io_ret res"
| "chain env g verbose' with_grid (s # ss) res =
     io_bind (apply_stage env g verbose' with_grid s (map snd res))
       (\<lambda>res'. chain env g verbose' with_grid ss res')"

definition composer ::
  "('f::linorder) env \<Rightarrow> 'f geobase \<Rightarrow> 'f args \<Rightarrow> ('f score \<times> key) list
     \<Rightarrow> ('f score \<times> key) list io" where
  "composer env g a res0 =
     chain env g (\<not> quiet a) (\<not> without_grid a)
       (List.map_filter (config_of a) stage_priority) res0"

subsection \<open>The width calculator as the specification describes it\<close>

definition clamp_spec :: "'a::linorder \<Rightarrow> 'a \<Rightarrow> 'a \<Rightarrow> 'a" where
  "clamp_spec x lo hi = (if x < lo then lo else if hi < x then hi else x)"

subsection \<open>A small store and environment to run the launcher on\<close>

text \<open>
  Two airports with an identifier and a name. The searches of this store keep the keys
  they are given; floats are rationals, printed exactly when they are whole numbers.
\<close>

definition example_name :: "key \<Rightarrow> string" where
  "example_name k = (if k = ''ORY'' then ''Paris-Orly'' else ''Paris-Charles-de-Gaulle'')"

definition example_distance :: "key \<Rightarrow> rat" where
  "example_distance k = (if k = ''ORY'' then 14 else 23)"

definition example_store :: "rat geobase" where
  "example_store =
     \<lparr>data_name = ''ori_por'', source = ''ori_por.csv'',
      g_fields = [''__id__'', ''name''],
      all_keys = [''ORY'', ''CDG''],
      contains = (\<lambda>k. k \<in> set [''ORY'', ''CDG'']),
      get = (\<lambda>k f. if f = ''__id__'' then k else example_name k),
      getLocation = (\<lambda>k. if k = ''ORY'' then Some (48, 2) else if k = ''CDG'' then Some (49, 2)
                         else None),
      hasTrepSupport = True, hasGeoSupport = True,
      trepGet = (\<lambda>text fmt from_keys verbose'. map (\<lambda>k. (1, k)) from_keys),
      getKeysWhere = (\<lambda>p v from_keys.
         filter (\<lambda>k. (if p = ''__id__'' then k else example_name k) = v) from_keys),
      findNearPoint = (\<lambda>coords radius grid from_keys.
         map (\<lambda>k. (example_distance k, k)) from_keys),
      findClosestFromPoint = (\<lambda>coords n grid from_keys.
         take (nat n) (map (\<lambda>k. (example_distance k, k)) from_keys)),
      fuzzyGet = (\<lambda>v p min_match from_keys. map (\<lambda>k. (1, k)) from_keys)\<rparr>"

definition example_env :: "rat env" where
  "example_env =
     \<lparr>narrow_build = False, stty_size = None, stdin_isatty = True, stdin_rows = [],
      BASES = [''ori_por'', ''airports''],
      GeoBase = (\<lambda>data verbose'. example_store),
      float_of = (\<lambda>s. 0),
      fmt3f = (\<lambda>x. str_int \<lfloor>x\<rfloor> @ ''.000''),
      str_float = (\<lambda>x. str_int \<lfloor>x\<rfloor> @ ''.0''),
      elapsed = ''0:00:00.000001''\<rparr>"

text \<open>The arguments when the command line gives none.\<close>

definition default_args :: "rat args" where
  "default_args =
     \<lparr>keys = [], base = ''ori_por'', fuzzy = None, fuzzy_property = ''name'',
      fuzzy_limit = 85 / 100, exact = None, exact_property = ''__id__'', near = None,
      near_limit = 50, closest = None, closest_limit = 10, trep = None, trep_format = ''S'',
      without_grid = False, quiet = False, verbose = False, omit = [], show_fields = [],
      limit = None, update = False\<rparr>"

text \<open>The same store with a name of 1001 characters for every key.\<close>

definition long_store :: "rat geobase" where
  "long_store = example_store\<lparr>get := (\<lambda>k f. replicate 1001 CHR ''a'')\<rparr>"

subsection \<open>The fields a renderer shows\<close>

text \<open>
  The default list of the specification: the score first, then the fields of the store
  in their declared order, without the omitted ones.
\<close>

definition default_fields :: "'f geobase \<Rightarrow> field set \<Rightarrow> field list" where
  "default_fields g om = filter (\<lambda>f. f \<notin> om) (''__ref__'' # g_fields g)"

text \<open>
  The colour \<open>col\<close> that the loop of \<open>display\<close> chooses for each field it does not
  skip, in order, starting from the colour state \<open>c\<close>.
\<close>

fun styled_rows ::
  "field set \<Rightarrow> field set \<Rightarrow> RotatingColors \<Rightarrow> field list \<Rightarrow> (field \<times> color) list" where
  "styled_rows om important c [] = []"
| "styled_rows om important c (f # fs) =
     (if f \<notin> om then
        (f, if f \<in> important then getEmph else get_color c)
          # styled_rows om important (next_color c) fs
      else styled_rows om important c fs)"

subsection \<open>Arguments that pass the checks of main\<close>

text \<open>
  The limit of the specification: the limit the user gave, or 4 in interactive mode, or
  none in quiet mode.
\<close>

definition limit_value :: "'f args \<Rightarrow> int option" where
  "limit_value a =
     (case limit a of None \<Rightarrow> if quiet a then None else Some 4 | Some s \<Rightarrow> py_int s)"

text \<open>
  The arguments with which \<open>main\<close> reaches the search: the limit is an integer, the base
  is known, no update is asked for, the store supports the searches asked for, and every
  property and field named exists.
\<close>

definition valid_args :: "'f env \<Rightarrow> 'f args \<Rightarrow> bool" where
  "valid_args env a =
     (let g = GeoBase env (base a) (verbose a) in
      (case limit a of None \<Rightarrow> True | Some s \<Rightarrow> py_int s \<noteq> None)
      \<and> base a \<in> set (BASES env) \<and> \<not> update a
      \<and> (trep a \<noteq> None \<longrightarrow> hasTrepSupport g)
      \<and> (near a \<noteq> None \<or> closest a \<noteq> None \<longrightarrow> hasGeoSupport g)
      \<and> (exact a \<noteq> None \<longrightarrow> exact_property a \<in> set (g_fields g))
      \<and> (fuzzy a \<noteq> None \<longrightarrow> fuzzy_property a \<in> set (g_fields g))
      \<and> (\<forall>field \<in> set (show_fields a @ omit a). field \<in> set (''__ref__'' # g_fields g)))"

text \<open>Runs of the launcher on the small store.\<close>

definition three_stage_args :: "rat args" where
  "three_stage_args =
     default_args\<lparr>keys := [''CDG'', ''ORY''], exact := Some ''Paris-Orly'',
       exact_property := ''name'', near := Some ''ORY'', fuzzy := Some ''Orly'', quiet := True,
       show_fields := [''name'']\<rparr>"

text \<open>The text \<open>warn('key', k, g._data, g._source)\<close> writes to the error stream.\<close>

definition key_warning :: "'f geobase \<Rightarrow> key \<Rightarrow> string" where
  "key_warning g k =
     bang @ '' Key '' @ k @ '' was not in GeoBase, for data '' @ dquote @ data_name g
       @ dquote @ '' and source '' @ source g @ nl"

definition quiet_name_args :: "rat args" where
  "quiet_name_args =
     default_args\<lparr>keys := [''ORY'', ''CDG''], quiet := True, show_fields := [''name'']\<rparr>"

section \<open>Properties\<close>

subsection \<open>UTF-8: decoding what was encoded\<close>








lemma utf8_encode_no_surrogate:
  "\<forall>x \<in> set u. \<not> is_surrogate x \<Longrightarrow> utf8_encode u = concat (map utf8_encode_char u)"
proof (induction u rule: utf8_encode.induct)
  case 1
  show ?case by simp
next
  case (2 ch)
  show ?case by simp
next
  case (3 ch ch2 r)
  from "3.prems" have n: "\<not> (is_high_surrogate ch \<and> is_low_surrogate ch2)"
    by (simp add: is_surrogate_def)
  from "3.prems" have "\<forall>x \<in> set (ch2 # r). \<not> is_surrogate x" by simp
  with "3.IH"(2) n have "utf8_encode (ch2 # r) = concat (map utf8_encode_char (ch2 # r))"
    by blast
  moreover from n have "utf8_encode (ch # ch2 # r) = utf8_encode_char ch @ utf8_encode (ch2 # r)"
    by auto
  ultimately show ?case by simp
qed



lemma utf8_decode_ascii:
  "\<forall>c \<in> set s. (of_char c :: nat) < 128 \<Longrightarrow> utf8_decode narrow s = Some (map of_char s)"
proof (induction s)
  case Nil
  show ?case by (simp add: utf8_decode.simps)
next
  case (Cons c s)
  then show ?case by (subst utf8_decode.simps) (simp add: Let_def units_of_def)
qed

lemma utf8_encode_ascii:
  assumes "\<forall>c \<in> set s. (of_char c :: nat) < 128"
  shows "utf8_encode (map of_char s) = s"
proof -
  from assms have "\<forall>x \<in> set (map of_char s). \<not> is_surrogate x"
    by (auto simp: is_surrogate_def is_high_surrogate_def is_low_surrogate_def)
  then have "utf8_encode (map of_char s) = concat (map utf8_encode_char (map of_char s))"
    by (rule utf8_encode_no_surrogate)
  also from assms have "\<dots> = s"
    by (induction s) (simp_all add: utf8_encode_char.simps)
  finally show ?thesis .
qed

subsection \<open>fixed_width\<close>

lemma fixed_width_ascii:
  assumes "\<forall>c \<in> set s. (of_char c :: nat) < 128"
  shows "fixed_width narrow s col w t
           = Inr (Colored (ljust w CHR '' '' (take (case t of None \<Rightarrow> 1000 | Some n \<Rightarrow> n) s)) col)"
proof -
  let ?n = "case t of None \<Rightarrow> 1000 | Some n \<Rightarrow> n"
  have d: "utf8_decode narrow s = Some (map of_char s)"
    using assms by (rule utf8_decode_ascii)
  have m: "ljust w (32::nat) (take ?n (map of_char s))
             = map of_char (ljust w CHR '' '' (take ?n s))"
    by (simp add: ljust_def take_map)
  have "\<forall>c \<in> set (ljust w CHR '' '' (take ?n s)). (of_char c :: nat) < 128"
    using assms by (auto simp: ljust_def dest: in_set_takeD)
  then have "utf8_encode (map of_char (ljust w CHR '' '' (take ?n s)))
               = ljust w CHR '' '' (take ?n s)"
    by (rule utf8_encode_ascii)
  with d m show ?thesis by (simp add: fixed_width_def)
qed






subsection \<open>display with one result\<close>

text \<open>
  Claim C4. With exactly one result \<open>display\<close> passes no limit to \<open>fixed_width\<close>
  (the source: "We do not truncate names if only one result"), and \<open>fixed_width\<close> then
  cuts after 1000 characters. Here the one result has a name of 1001 characters and the
  cell shows 1000 of them: the full value is not shown.
\<close>

theorem display_one_result_cuts_at_1000:
  "display example_env long_store [(Idx 0, ''ORY'')] {} [''name''] {''__id__''}
     = ([Out (Raw nl), Out (Colored (''name'' @ replicate 36 CHR '' '') (''cyan'', None, [])),
         Out (Colored (replicate 1000 CHR ''a'') (''cyan'', None, [])), Out (Raw nl)], Inr ())
   \<and> get long_store ''ORY'' ''name'' = replicate 1001 CHR ''a''"
proof -
  have w: "column_lim (snd (getTermSize (stty_size example_env))) (Suc 0) = 40"
    by (simp add: column_lim_def getTermSize_def example_env_def numeral_2_eq_2 [symmetric])
  have a: "fixed_width (narrow_build example_env) ''name'' (''cyan'', None, []) 40 None
             = Inr (Colored (''name'' @ replicate 36 CHR '' '') (''cyan'', None, []))"
    by (subst fixed_width_ascii) (simp_all add: ljust_def)
  have b: "fixed_width (narrow_build example_env) (replicate 1001 CHR ''a'') (''cyan'', None, [])
             40 None
             = Inr (Colored (replicate 1000 CHR ''a'') (''cyan'', None, []))"
    by (subst fixed_width_ascii) (simp_all add: ljust_def)
  have g: "get long_store ''ORY'' ''name'' = replicate 1001 CHR ''a''"
    by (simp add: long_store_def)
  show ?thesis
    by (simp add: display_def w display_row_def g a b write_label_def write_cell_def
        stdout_write_def io_bind_def io_ret_def new_colors_def get_color_def availables_def)
qed

subsection \<open>Width of a column\<close>

text \<open>
  Claim C6. When there is something to display, \<open>display\<close> writes its rows at the width
  \<open>W / (N + 1)\<close> clamped to the range from 25 to 40, where \<open>W\<close> is the second component
  of \<open>getTermSize\<close> and \<open>N\<close> the number of results (and cuts at that width unless
  \<open>N\<close> is 1). The width is the clamp of the integer quotient, which is the integer part
  of the clamped real quotient, and it is never below 25 and never above 40.
\<close>

theorem display_width_is_clamp:
  "(things \<noteq> [] \<longrightarrow>
      display env g things om sh imp
        = io_bind
            (display_rows env g things om imp
               (clamp_spec (snd (getTermSize (stty_size env)) div (length things + 1)) 25 40)
               (if length things = 1 then None
                else Some (clamp_spec (snd (getTermSize (stty_size env)) div (length things + 1))
                             25 40))
               new_colors (if sh = [] then ''__ref__'' # g_fields g else sh))
            (\<lambda>_. stdout_write [Raw nl]))
   \<and> column_lim W N = clamp_spec (W div (N + 1)) 25 40
   \<and> int (column_lim W N) = \<lfloor>clamp_spec (real W / real (N + 1)) 25 40\<rfloor>
   \<and> 25 \<le> column_lim W N \<and> column_lim W N \<le> 40"
proof -
  have q: "\<lfloor>real W / real (N + 1)\<rfloor> = int (W div (N + 1))"
    by (rule floor_divide_of_nat_eq)
  have a: "column_lim w n = clamp_spec (w div (n + 1)) 25 40" for w n
    by (simp add: column_lim_def clamp_spec_def)
  have "\<lfloor>clamp_spec (real W / real (N + 1)) 25 40\<rfloor>
          = clamp_spec \<lfloor>real W / real (N + 1)\<rfloor> 25 40"
    unfolding clamp_spec_def by (auto simp: floor_less_iff less_floor_iff floor_eq_iff)
  then have b: "int (column_lim W N) = \<lfloor>clamp_spec (real W / real (N + 1)) 25 40\<rfloor>"
    unfolding q a by (simp add: clamp_spec_def)
  have c: "25 \<le> column_lim W N \<and> column_lim W N \<le> 40"
    by (simp add: column_lim_def)
  have d: "things \<noteq> [] \<longrightarrow>
      display env g things om sh imp
        = io_bind
            (display_rows env g things om imp
               (clamp_spec (snd (getTermSize (stty_size env)) div (length things + 1)) 25 40)
               (if length things = 1 then None
                else Some (clamp_spec (snd (getTermSize (stty_size env)) div (length things + 1))
                             25 40))
               new_colors (if sh = [] then ''__ref__'' # g_fields g else sh))
            (\<lambda>_. stdout_write [Raw nl])"
    by (simp add: display_def Let_def a)
  from a [of W N] b c d show ?thesis by blast
qed

text \<open>A terminal of 80 columns and two results: the width is 26.\<close>

theorem display_width_is_clamp_witness:
  "[(Idx 0, ''ORY''), (Idx 1, ''CDG'')] \<noteq> ([] :: (rat score \<times> key) list)
   \<and> display (example_env\<lparr>stty_size := Some (24, 80)\<rparr>) example_store
        [(Idx 0, ''ORY''), (Idx 1, ''CDG'')] {} [''__id__''] {}
       = ([Out (Raw nl),
           Out (Colored (''__id__'' @ replicate 20 CHR '' '') (''cyan'', None, [])),
           Out (Colored (''ORY'' @ replicate 23 CHR '' '') (''cyan'', None, [])),
           Out (Colored (''CDG'' @ replicate 23 CHR '' '') (''cyan'', None, [])),
           Out (Raw nl)], Inr ())
   \<and> column_lim 80 2 = 26"
proof -
  let ?env = "example_env\<lparr>stty_size := Some (24, 80)\<rparr>"
  let ?things = "[(Idx 0, ''ORY''), (Idx 1, ''CDG'')] :: (rat score \<times> key) list"
  note inst = display_width_is_clamp [of ?things ?env example_store "{}" "[''__id__'']" "{}" 80 2]
  have ne: "?things \<noteq> []" by simp
  have c: "clamp_spec (snd (getTermSize (stty_size ?env)) div (length ?things + 1)) 25 40 = 26"
    by (simp add: clamp_spec_def getTermSize_def)
  have c2: "clamp_spec (80 div (2 + 1)) 25 40 = (26::nat)"
    by (simp add: clamp_spec_def)
  have nb: "narrow_build ?env = False" by (simp add: example_env_def)
  have lab: "fixed_width False ''__id__'' (''cyan'', None, []) 26 (Some 26)
               = Inr (Colored (''__id__'' @ replicate 20 CHR '' '') (''cyan'', None, []))"
    by (subst fixed_width_ascii) (simp_all add: ljust_def)
  have v1: "fixed_width False ''ORY'' (''cyan'', None, []) 26 (Some 26)
               = Inr (Colored (''ORY'' @ replicate 23 CHR '' '') (''cyan'', None, []))"
    by (subst fixed_width_ascii) (simp_all add: ljust_def)
  have v2: "fixed_width False ''CDG'' (''cyan'', None, []) 26 (Some 26)
               = Inr (Colored (''CDG'' @ replicate 23 CHR '' '') (''cyan'', None, []))"
    by (subst fixed_width_ascii) (simp_all add: ljust_def)
  have rows: "display_rows ?env example_store ?things {} {} 26 (Some 26) new_colors [''__id__'']
      = ([Out (Raw nl),
          Out (Colored (''__id__'' @ replicate 20 CHR '' '') (''cyan'', None, [])),
          Out (Colored (''ORY'' @ replicate 23 CHR '' '') (''cyan'', None, [])),
          Out (Colored (''CDG'' @ replicate 23 CHR '' '') (''cyan'', None, []))], Inr ())"
    by (simp add: display_row_def nb lab v1 v2 example_store_def write_label_def write_cell_def
        stdout_write_def io_bind_def io_ret_def new_colors_def get_color_def availables_def)
  from inst ne have "display ?env example_store ?things {} [''__id__''] {}
      = io_bind (display_rows ?env example_store ?things {} {} 26 (Some 26) new_colors [''__id__''])
          (\<lambda>_. stdout_write [Raw nl])"
    unfolding c by simp
  then have d: "display ?env example_store ?things {} [''__id__''] {}
       = ([Out (Raw nl),
           Out (Colored (''__id__'' @ replicate 20 CHR '' '') (''cyan'', None, [])),
           Out (Colored (''ORY'' @ replicate 23 CHR '' '') (''cyan'', None, [])),
           Out (Colored (''CDG'' @ replicate 23 CHR '' '') (''cyan'', None, [])),
           Out (Raw nl)], Inr ())"
    unfolding rows by (simp add: io_bind_def stdout_write_def)
  from inst have w: "column_lim 80 2 = 26"
    unfolding c2 by blast
  show ?thesis
    by (intro conjI) (rule ne, rule d, rule w)
qed

subsection \<open>What display writes, row by row\<close>

lemma io_bind_ret [simp]: "io_bind (io_ret x) f = f x"
  by (cases "f x") (simp add: io_bind_def io_ret_def)

lemma io_bind_fail [simp]: "io_bind (io_fail e) f = io_fail e"
  by (simp add: io_bind_def io_fail_def)

lemma io_bind_assoc: "io_bind (io_bind m f) h = io_bind m (\<lambda>x. io_bind (f x) h)"
  by (cases m rule: prod.exhaust; cases "snd m")
     (auto simp: io_bind_def split: prod.splits sum.splits)

lemma fst_io_bind_subset:
  "e \<in> set (fst (io_bind m f)) \<Longrightarrow> e \<in> set (fst m) \<or> (\<exists>x. snd m = Inr x \<and> e \<in> set (fst (f x)))"
  by (cases m rule: prod.exhaust; cases "snd m")
     (auto simp: io_bind_def split: prod.splits sum.splits)

lemma for_each_events:
  "e \<in> set (fst (for_each f xs)) \<Longrightarrow> \<exists>x \<in> set xs. e \<in> set (fst (f x))"
proof (induction xs)
  case Nil
  then show ?case by (simp add: io_ret_def)
next
  case (Cons x xs)
  from fst_io_bind_subset [OF Cons.prems [simplified for_each.simps]]
  show ?case using Cons.IH by auto
qed

lemma fixed_width_color:
  "fixed_width nb s col w t = Inr sg \<Longrightarrow> \<exists>txt. sg = Colored txt col"
  by (auto simp: fixed_width_def Let_def split: option.splits)

lemma write_cell_events:
  "Out (Colored txt col') \<in> set (fst (write_cell (fixed_width nb s col w t))) \<Longrightarrow> col' = col"
  by (cases "fixed_width nb s col w t")
     (auto simp: write_cell_def io_fail_def stdout_write_def dest: fixed_width_color)

lemma write_label_events:
  "Out (Colored txt col') \<in> set (fst (write_label (fixed_width nb s col w t))) \<Longrightarrow> col' = col"
  by (cases "fixed_width nb s col w t")
     (auto simp: write_label_def io_fail_def stdout_write_def dest: fixed_width_color)

lemma display_row_colors:
  assumes "Out (Colored txt col') \<in> set (fst (display_row env g things w t col f))"
  shows "col' = (if f = ''__ref__'' then getHeader else col)"
proof (cases "f = ''__ref__''")
  case True
  with assms have "Out (Colored txt col')
      \<in> set (fst (io_bind (write_label (fixed_width (narrow_build env) f getHeader w t))
            (\<lambda>_. for_each (\<lambda>(h, _). write_cell (fixed_width (narrow_build env) (fmt_score env h) getHeader w t))
                    things)))"
    by (simp add: display_row_def)
  from fst_io_bind_subset [OF this] have "col' = getHeader"
    by (auto dest!: write_label_events for_each_events write_cell_events)
  with True show ?thesis by simp
next
  case False
  with assms have "Out (Colored txt col')
      \<in> set (fst (io_bind (write_label (fixed_width (narrow_build env) f col w t))
            (\<lambda>_. for_each (\<lambda>(_, k). write_cell (fixed_width (narrow_build env) (get g k f) col w t)) things)))"
    by (simp add: display_row_def)
  from fst_io_bind_subset [OF this] have "col' = col"
    by (auto dest!: write_label_events for_each_events write_cell_events)
  with False show ?thesis by simp
qed

lemma display_rows_styled:
  "display_rows env g things om imp w t c fs
     = for_each (\<lambda>(f, col). display_row env g things w t col f) (styled_rows om imp c fs)"
  by (induction fs arbitrary: c) simp_all

lemma styled_rows_fields: "map fst (styled_rows om imp c fs) = filter (\<lambda>f. f \<notin> om) fs"
  by (induction fs arbitrary: c) simp_all

lemma next_color_valid: "current c < 2 \<Longrightarrow> current (next_color c) < 2"
  by (auto simp: next_color_def availables_def Let_def)

lemma get_color_not_emph: "current c < 2 \<Longrightarrow> get_color c \<noteq> getEmph"
proof -
  assume "current c < 2"
  then have "current c = 0 \<or> current c = 1" by auto
  then show ?thesis by (auto simp: get_color_def availables_def getEmph_def)
qed

lemma styled_rows_emph:
  "current c < 2 \<Longrightarrow> (f, col) \<in> set (styled_rows om imp c fs)
     \<Longrightarrow> (col = getEmph) = (f \<in> imp)"
proof (induction fs arbitrary: c)
  case Nil
  then show ?case by simp
next
  case (Cons x fs)
  show ?case
  proof (cases "x \<in> om")
    case True
    with Cons show ?thesis by simp
  next
    case False
    with Cons.prems consider "f = x" "col = (if x \<in> imp then getEmph else get_color c)"
      | "(f, col) \<in> set (styled_rows om imp (next_color c) fs)"
      by auto
    then show ?thesis
    proof cases
      case 1
      with get_color_not_emph [OF Cons.prems(1)] show ?thesis by auto
    next
      case 2
      from Cons.IH [OF next_color_valid [OF Cons.prems(1)] 2] show ?thesis .
    qed
  qed
qed

lemma quiet_cells_filter:
  "quiet_cells env g om h k fs
     = map (\<lambda>f. if f = ''__ref__'' then fmt_score env h else get g k f) (filter (\<lambda>f. f \<notin> om) fs)"
  by (induction fs) simp_all

subsection \<open>main, when the arguments pass its checks\<close>

lemma io_when_False [simp]: "io_when False m = io_ret ()"
  by (simp add: io_when_def)

lemma io_when_True [simp]: "io_when True m = m"
  by (simp add: io_when_def)

lemma for_each_ret: "(\<forall>x \<in> set xs. f x = io_ret ()) \<Longrightarrow> for_each f xs = io_ret ()"
  by (induction xs) simp_all

lemma failing_valid:
  assumes "valid_args env a"
  shows "failing env (GeoBase env (base a) (verbose a)) a = io_ret ()"
proof -
  let ?g = "GeoBase env (base a) (verbose a)"
  from assms have t: "\<not> (trep a \<noteq> None \<and> \<not> hasTrepSupport ?g)"
    and n: "\<not> ((near a \<noteq> None \<or> closest a \<noteq> None) \<and> \<not> hasGeoSupport ?g)"
    and e: "\<not> (exact a \<noteq> None \<and> exact_property a \<notin> set (g_fields ?g))"
    and f: "\<not> (fuzzy a \<noteq> None \<and> fuzzy_property a \<notin> set (g_fields ?g))"
    and s: "\<forall>field \<in> set (show_fields a @ omit a). field \<in> set (''__ref__'' # g_fields ?g)"
    by (auto simp: valid_args_def Let_def)
  from s have "for_each (\<lambda>field.
         io_when (field \<notin> set (''__ref__'' # g_fields ?g))
           (error (Field field (base a) (''__ref__'' # g_fields ?g))))
       (show_fields a @ omit a) = io_ret ()"
    by (intro for_each_ret) (simp add: io_when_def)
  with t n e f show ?thesis
    unfolding failing_def by (simp only: io_when_False io_bind_ret)
qed

lemma limit_of_valid:
  assumes "valid_args env a"
  shows "limit_of a = Inr (limit_value a)"
  using assms
  by (auto simp: valid_args_def Let_def limit_of_def limit_value_def split: option.splits)

lemma main_valid:
  assumes "valid_args env a"
  shows "main env a
           = io_bind (io_when (\<not> quiet a) (py_print ''Loading GeoBase...''))
               (\<lambda>_. io_bind (io_when (\<not> quiet a) (announce env a))
               (\<lambda>_. io_bind (pipeline env (GeoBase env (base a) (verbose a)) a
                               (enumerate_keys
                                  (initial_keys env (GeoBase env (base a) (verbose a)) a)))
               (display_phase env (GeoBase env (base a) (verbose a)) a (limit_value a))))"
proof -
  from assms have b: "base a \<in> set (BASES env)" and u: "\<not> update a"
    by (auto simp: valid_args_def Let_def)
  show ?thesis
    unfolding main_def limit_of_valid [OF assms] Let_def
    by (simp add: b u failing_valid [OF assms])
qed

subsection \<open>The order of the stages\<close>

lemma io_bind_ret_right [simp]: "io_bind m io_ret = m"
  by (cases m rule: prod.exhaust; cases "snd m") (auto simp: io_bind_def io_ret_def)

lemma pipeline_is_composer: "pipeline env g a res0 = composer env g a res0"
  by (cases "trep a"; cases "exact a"; cases "near a"; cases "closest a"; cases "fuzzy a")
     (simp_all add: pipeline_def composer_def stage_priority_def List.map_filter_simps Let_def
        ex_keys_def io_bind_assoc)

text \<open>
  Claim C3. Whatever stages are requested, \<open>main\<close> runs them as the composer of the
  specification does: in the priority TextSearch, ExactMatch, RadiusSearch,
  NearestNSearch, FuzzyMatch, leaving out the stages that are not requested, and giving
  each stage the keys (the scores dropped) of the output of the stage before it, the
  first one the keys of the input. The arguments are the parsed dictionary, which does
  not record the order of the flags.
\<close>

theorem stages_in_fixed_priority:
  "pipeline env g a res0 = composer env g a res0
   \<and> stage_priority = [TextSearch, ExactMatch, RadiusSearch, NearestNSearch, FuzzyMatch]
   \<and> (valid_args env a \<longrightarrow>
        main env a
          = io_bind (io_when (\<not> quiet a) (py_print ''Loading GeoBase...''))
              (\<lambda>_. io_bind (io_when (\<not> quiet a) (announce env a))
              (\<lambda>_. io_bind (composer env (GeoBase env (base a) (verbose a)) a
                              (enumerate_keys
                                 (initial_keys env (GeoBase env (base a) (verbose a)) a)))
              (display_phase env (GeoBase env (base a) (verbose a)) a (limit_value a)))))"
  using main_valid [of env a]
  by (simp add: pipeline_is_composer stage_priority_def)

lemma float_syntax_ORY: "\<not> list_all float_syntax (coord_tokens ''ORY'')"
  by (simp add: coord_tokens_def strip_by_def is_paren_def float_syntax_def py_strip_def
      is_space_def drop_sign_def lower_def decimal_syntax_def is_digit_def char_of_eq_iff)

lemma three_stage_valid: "valid_args example_env three_stage_args"
  by (simp add: valid_args_def three_stage_args_def default_args_def example_env_def
      example_store_def)

text \<open>
  Exact match on the name, then a radius search around a key, then a fuzzy match, from
  two keys in quiet mode: one line is written.
\<close>

theorem stages_in_fixed_priority_witness:
  "valid_args example_env three_stage_args
   \<and> main example_env three_stage_args = ([Out (Raw (''Paris-Orly'' @ nl))], Inr ())"
proof -
  let ?a = "three_stage_args"
  have g: "GeoBase example_env (base ?a) (verbose ?a) = example_store"
    by (simp add: example_env_def)
  have q: "quiet ?a" and l: "limit_value ?a = None"
    by (simp_all add: three_stage_args_def default_args_def limit_value_def)
  have k: "initial_keys example_env example_store ?a = [''CDG'', ''ORY'']"
    by (simp add: initial_keys_def example_env_def three_stage_args_def default_args_def)
  have e: "enumerate_keys [''CDG'', ''ORY''] = [(Idx 0, ''CDG''), (Idx 1, ''ORY'') :: rat score \<times> key]"
    by (simp add: enumerate_keys_def)
  have cfg: "List.map_filter (config_of ?a) stage_priority
      = [ExactMatchCfg ''name'' ''Paris-Orly'', RadiusSearchCfg ''ORY'' 50,
         FuzzyMatchCfg ''Orly'' ''name'' (85 / 100)]"
    by (simp add: stage_priority_def List.map_filter_simps three_stage_args_def default_args_def)
  have sc: "scan_coords example_env ''ORY'' example_store False = io_ret (48, 2)"
    using float_syntax_ORY by (simp add: scan_coords_def example_store_def)
  have c: "composer example_env example_store ?a [(Idx 0, ''CDG''), (Idx 1, ''ORY'')]
             = io_ret [(Flt 1, ''ORY'')]"
    unfolding composer_def cfg
    by (simp add: q sc) (simp add: example_store_def example_name_def example_distance_def
        enumerate_keys_def scored_def three_stage_args_def default_args_def)
  have d: "display_phase example_env example_store ?a None [(Flt 1, ''ORY'')]
             = ([Out (Raw (''Paris-Orly'' @ nl))], Inr ())"
    by (simp add: display_phase_def limiter_def warn_unknown_def remove_unknown_def q
        display_quiet_def)
       (simp add: example_store_def example_name_def three_stage_args_def default_args_def
        stdout_write_def io_bind_def io_ret_def)
  from stages_in_fixed_priority [of example_env example_store ?a "[]"] three_stage_valid
  have "main example_env ?a
          = io_bind (io_when (\<not> quiet ?a) (py_print ''Loading GeoBase...''))
              (\<lambda>_. io_bind (io_when (\<not> quiet ?a) (announce example_env ?a))
              (\<lambda>_. io_bind (composer example_env (GeoBase example_env (base ?a) (verbose ?a)) ?a
                              (enumerate_keys
                                 (initial_keys example_env
                                    (GeoBase example_env (base ?a) (verbose ?a)) ?a)))
              (display_phase example_env (GeoBase example_env (base ?a) (verbose ?a)) ?a
                 (limit_value ?a))))"
    by blast
  then have "main example_env ?a = ([Out (Raw (''Paris-Orly'' @ nl))], Inr ())"
    unfolding g l k e c by (simp add: q d)
  with three_stage_valid show ?thesis by blast
qed

subsection \<open>The display phase\<close>

lemma for_each_write:
  "for_each (\<lambda>x. stdout_write [F x]) xs = (map (\<lambda>x. Out (F x)) xs, Inr ())"
  by (induction xs) (simp_all add: io_ret_def io_bind_def stdout_write_def)

lemma for_each_filter:
  "for_each (\<lambda>x. if P x then f x else io_ret ()) xs = for_each f (filter P xs)"
  by (induction xs) simp_all

lemma warn_key: "warn ''key'' k (data_name g) (source g) = ([Err (key_warning g k)], Inr ())"
  by (simp add: warn_def py_print_err_def key_warning_def)

lemma warn_unknown_events:
  "warn_unknown g res
     = (map (\<lambda>k. Err (key_warning g k)) (filter (\<lambda>k. \<not> contains g k) (map snd res)), Inr ())"
proof (induction res)
  case Nil
  show ?case by (simp add: warn_unknown_def io_ret_def)
next
  case (Cons x res)
  then show ?case
    by (cases x) (auto simp: warn_unknown_def warn_key io_bind_def io_ret_def io_when_def)
qed

lemma warn_unknown_present:
  "\<forall>k \<in> set (map snd res). contains g k \<Longrightarrow> warn_unknown g res = io_ret ()"
  by (simp add: warn_unknown_events io_ret_def filter_empty_conv)

lemma remove_unknown_present:
  "\<forall>k \<in> set (map snd res). contains g k \<Longrightarrow> remove_unknown g res = res"
  by (auto simp: remove_unknown_def filter_id_conv)

lemma display_quiet_present:
  assumes "\<forall>k \<in> set (map snd res). contains g k"
  shows "display_quiet env g res om sh
     = (map (\<lambda>(h, k). Out (Raw (join ''^''
              (map (\<lambda>f. if f = ''__ref__'' then fmt_score env h else get g k f)
                 (filter (\<lambda>f. f \<notin> om) (if sh = [] then ''__ref__'' # g_fields g else sh)))
              @ nl))) res,
        Inr ())"
proof -
  let ?shown = "if sh = [] then ''__ref__'' # g_fields g else sh"
  let ?line = "\<lambda>(h, k). Raw (join ''^'' (quiet_cells env g om h k ?shown) @ nl)"
  have "for_each (\<lambda>(h, k).
          if \<not> contains g k then io_ret ()
          else stdout_write [Raw (join ''^'' (quiet_cells env g om h k ?shown) @ nl)]) res
        = for_each (\<lambda>x. stdout_write [?line x]) res"
    using assms by (induction res) auto
  then show ?thesis
    by (simp add: display_quiet_def Let_def for_each_write quiet_cells_filter
        case_prod_unfold)
qed

lemma pipeline_no_stage:
  assumes "trep a = None" "exact a = None" "near a = None" "closest a = None" "fuzzy a = None"
  shows "pipeline env g a res0 = io_ret res0"
  using assms by (simp add: pipeline_def)

lemma enumerate_keys_snd: "map snd (enumerate_keys ks) = ks"
  by (simp add: enumerate_keys_def comp_def case_prod_unfold map_snd_enumerate)

lemma main_quiet_no_stage:
  assumes v: "valid_args env a"
    and n: "trep a = None" "exact a = None" "near a = None" "closest a = None" "fuzzy a = None"
    and q: "quiet a" and l: "limit a = None"
    and p: "\<forall>k \<in> set (initial_keys env (GeoBase env (base a) (verbose a)) a).
              contains (GeoBase env (base a) (verbose a)) k"
  shows "main env a
     = (map (\<lambda>(i, k). Out (Raw (join ''^''
              (map (\<lambda>f. if f = ''__ref__'' then str_nat i @ ''.000''
                         else get (GeoBase env (base a) (verbose a)) k f)
                 (filter (\<lambda>f. f \<notin> set (omit a))
                    (if show_fields a = [] then ''__ref__'' # g_fields (GeoBase env (base a) (verbose a))
                     else show_fields a)))
              @ nl)))
          (enumerate 0 (initial_keys env (GeoBase env (base a) (verbose a)) a)),
        Inr ())"
proof -
  let ?g = "GeoBase env (base a) (verbose a)"
  let ?res = "enumerate_keys (initial_keys env ?g a) :: ('a score \<times> key) list"
  from q l have lv: "limit_value a = None" by (simp add: limit_value_def)
  from p have pr: "\<forall>k \<in> set (map snd ?res). contains ?g k"
    by (simp only: enumerate_keys_snd)
  have "main env a = display_phase env ?g a None ?res"
    using main_valid [OF v] q by (simp add: pipeline_no_stage [OF n] lv)
  also have "\<dots> = display_quiet env ?g ?res (set (omit a)) (show_fields a)"
    using q by (simp add: display_phase_def limiter_def warn_unknown_present [OF pr]
        remove_unknown_present [OF pr])
  also note display_quiet_present [OF pr]
  finally show ?thesis
    by (simp add: enumerate_keys_def comp_def case_prod_unfold cong: if_cong)
qed

subsection \<open>No stage requested\<close>

lemma str_nat_digit: "n < 10 \<Longrightarrow> str_nat n = [digit_char n]"
  by (subst str_nat.simps) simp

lemma str_nat_0: "str_nat 0 = ''0''"
  by (simp add: str_nat_digit digit_char_def char_of_eq_iff)

lemma str_nat_1: "str_nat (Suc 0) = ''1''"
  by (simp add: str_nat_digit digit_char_def char_of_eq_iff)

lemma example_GeoBase: "GeoBase example_env b v = example_store"
  by (simp add: example_env_def)

text \<open>
  Claim C1, as the code has it. When no stage is requested, the search returns the input
  keys unchanged and in input order, each with its position 0, 1, 2, ... as score (the
  pairs of \<open>enumerate\<close>), not with the score 0. In quiet mode, without a limit and with
  keys that are all in the store, \<open>main\<close> then writes one line for each key, in input
  order: the shown fields that are not omitted, joined by \<open>^\<close>, where the field
  \<open>__ref__\<close> is the position with three zero decimals. The score is written only where
  \<open>__ref__\<close> is among the shown fields.
\<close>

theorem no_stage_keeps_input_with_positions:
  "(trep a = None \<and> exact a = None \<and> near a = None \<and> closest a = None \<and> fuzzy a = None
      \<longrightarrow> pipeline env g a (enumerate_keys ks)
            = io_ret (map (\<lambda>(i, k). (Idx i, k)) (enumerate 0 ks)))
   \<and> (valid_args env a
       \<and> trep a = None \<and> exact a = None \<and> near a = None \<and> closest a = None \<and> fuzzy a = None
       \<and> quiet a \<and> limit a = None
       \<and> (\<forall>k \<in> set (initial_keys env (GeoBase env (base a) (verbose a)) a).
             contains (GeoBase env (base a) (verbose a)) k)
      \<longrightarrow> main env a
            = (map (\<lambda>(i, k). Out (Raw (join ''^''
                     (map (\<lambda>f. if f = ''__ref__'' then str_nat i @ ''.000''
                                else get (GeoBase env (base a) (verbose a)) k f)
                        (filter (\<lambda>f. f \<notin> set (omit a))
                           (if show_fields a = []
                            then ''__ref__'' # g_fields (GeoBase env (base a) (verbose a))
                            else show_fields a)))
                     @ nl)))
                 (enumerate 0 (initial_keys env (GeoBase env (base a) (verbose a)) a)),
               Inr ()))"
proof (intro conjI impI)
  assume "trep a = None \<and> exact a = None \<and> near a = None \<and> closest a = None \<and> fuzzy a = None"
  then show "pipeline env g a (enumerate_keys ks)
               = io_ret (map (\<lambda>(i, k). (Idx i, k)) (enumerate 0 ks))"
    by (simp add: pipeline_no_stage enumerate_keys_def)
next
  assume h: "valid_args env a
       \<and> trep a = None \<and> exact a = None \<and> near a = None \<and> closest a = None \<and> fuzzy a = None
       \<and> quiet a \<and> limit a = None
       \<and> (\<forall>k \<in> set (initial_keys env (GeoBase env (base a) (verbose a)) a).
             contains (GeoBase env (base a) (verbose a)) k)"
  then show "main env a
            = (map (\<lambda>(i, k). Out (Raw (join ''^''
                     (map (\<lambda>f. if f = ''__ref__'' then str_nat i @ ''.000''
                                else get (GeoBase env (base a) (verbose a)) k f)
                        (filter (\<lambda>f. f \<notin> set (omit a))
                           (if show_fields a = []
                            then ''__ref__'' # g_fields (GeoBase env (base a) (verbose a))
                            else show_fields a)))
                     @ nl)))
                 (enumerate 0 (initial_keys env (GeoBase env (base a) (verbose a)) a)),
               Inr ())"
    by (intro main_quiet_no_stage) simp_all
qed

lemma quiet_name_args_valid: "valid_args example_env (quiet_name_args\<lparr>show_fields := sh\<rparr>)
    = (\<forall>f \<in> set sh. f \<in> set [''__ref__'', ''__id__'', ''name''])"
  by (simp add: valid_args_def quiet_name_args_def default_args_def example_env_def
      example_store_def)

text \<open>The keys ORY and CDG in quiet mode, showing the score and the identifier.\<close>

theorem no_stage_keeps_input_with_positions_witness:
  "valid_args example_env (quiet_name_args\<lparr>show_fields := [''__ref__'', ''__id__'']\<rparr>)
   \<and> main example_env (quiet_name_args\<lparr>show_fields := [''__ref__'', ''__id__'']\<rparr>)
       = ([Out (Raw (''0.000^ORY'' @ nl)), Out (Raw (''1.000^CDG'' @ nl))], Inr ())
   \<and> pipeline example_env example_store
        (quiet_name_args\<lparr>show_fields := [''__ref__'', ''__id__'']\<rparr>)
        (enumerate_keys [''ORY'', ''CDG''])
       = io_ret [(Idx 0, ''ORY''), (Idx 1, ''CDG'')]"
proof -
  let ?a = "quiet_name_args\<lparr>show_fields := [''__ref__'', ''__id__'']\<rparr>"
  note inst = no_stage_keeps_input_with_positions
                [of ?a example_env example_store "[''ORY'', ''CDG'']"]
  have v: "valid_args example_env ?a"
    by (simp add: quiet_name_args_valid)
  have n: "trep ?a = None \<and> exact ?a = None \<and> near ?a = None \<and> closest ?a = None
             \<and> fuzzy ?a = None"
    and q: "quiet ?a \<and> limit ?a = None"
    by (simp_all add: quiet_name_args_def default_args_def)
  have k: "initial_keys example_env example_store ?a = [''ORY'', ''CDG'']"
    by (simp add: initial_keys_def example_env_def quiet_name_args_def default_args_def)
  have p: "\<forall>k \<in> set (initial_keys example_env (GeoBase example_env (base ?a) (verbose ?a)) ?a).
             contains (GeoBase example_env (base ?a) (verbose ?a)) k"
    unfolding example_GeoBase k by (simp add: example_store_def)
  from inst v n q p have "main example_env ?a
            = (map (\<lambda>(i, k). Out (Raw (join ''^''
                     (map (\<lambda>f. if f = ''__ref__'' then str_nat i @ ''.000''
                                else get (GeoBase example_env (base ?a) (verbose ?a)) k f)
                        (filter (\<lambda>f. f \<notin> set (omit ?a))
                           (if show_fields ?a = []
                            then ''__ref__'' # g_fields (GeoBase example_env (base ?a) (verbose ?a))
                            else show_fields ?a)))
                     @ nl)))
                 (enumerate 0 (initial_keys example_env
                     (GeoBase example_env (base ?a) (verbose ?a)) ?a)),
               Inr ())"
    by blast
  then have m: "main example_env ?a
       = ([Out (Raw (''0.000^ORY'' @ nl)), Out (Raw (''1.000^CDG'' @ nl))], Inr ())"
    unfolding example_GeoBase k
    by (simp add: str_nat_0 str_nat_1 quiet_name_args_def default_args_def example_store_def)
  from inst n have "pipeline example_env example_store ?a (enumerate_keys [''ORY'', ''CDG''])
       = io_ret (map (\<lambda>(i, k). (Idx i, k)) (enumerate 0 [''ORY'', ''CDG'']))"
    by blast
  then have pl: "pipeline example_env example_store ?a (enumerate_keys [''ORY'', ''CDG''])
       = io_ret [(Idx 0, ''ORY''), (Idx 1, ''CDG'')]"
    by simp
  from v m pl show ?thesis by blast
qed

text \<open>
  Claim C1, as stated, fails: with the keys ORY and CDG, no stage, quiet mode and the
  field \<open>name\<close> shown, the two lines are the names alone, with no score; and when the score
  is shown as well, the second line starts with \<open>1.000\<close>, not \<open>0.000\<close>.
\<close>

theorem no_stage_scores_are_positions:
  "main example_env quiet_name_args
     = ([Out (Raw (''Paris-Orly'' @ nl)), Out (Raw (''Paris-Charles-de-Gaulle'' @ nl))], Inr ())
   \<and> main example_env (quiet_name_args\<lparr>show_fields := [''__ref__'', ''name'']\<rparr>)
     = ([Out (Raw (''0.000^Paris-Orly'' @ nl)),
         Out (Raw (''1.000^Paris-Charles-de-Gaulle'' @ nl))], Inr ())"
proof -
  have run: "main example_env (quiet_name_args\<lparr>show_fields := sh\<rparr>)
       = (map (\<lambda>(i, k). Out (Raw (join ''^''
                (map (\<lambda>f. if f = ''__ref__'' then str_nat i @ ''.000''
                           else get example_store k f)
                   (filter (\<lambda>f. f \<notin> set (omit (quiet_name_args\<lparr>show_fields := sh\<rparr>)))
                      (if sh = [] then ''__ref__'' # g_fields example_store else sh)))
                @ nl)))
            (enumerate 0 [''ORY'', ''CDG'']), Inr ())"
    if "\<forall>f \<in> set sh. f \<in> set [''__ref__'', ''__id__'', ''name'']" for sh
  proof -
    let ?a = "quiet_name_args\<lparr>show_fields := sh\<rparr>"
    have k: "initial_keys example_env example_store ?a = [''ORY'', ''CDG'']"
      by (simp add: initial_keys_def example_env_def quiet_name_args_def default_args_def)
    have v: "valid_args example_env ?a"
      using that by (simp add: quiet_name_args_valid)
    have "main example_env ?a
       = (map (\<lambda>(i, k). Out (Raw (join ''^''
              (map (\<lambda>f. if f = ''__ref__'' then str_nat i @ ''.000''
                         else get (GeoBase example_env (base ?a) (verbose ?a)) k f)
                 (filter (\<lambda>f. f \<notin> set (omit ?a))
                    (if show_fields ?a = []
                     then ''__ref__'' # g_fields (GeoBase example_env (base ?a) (verbose ?a))
                     else show_fields ?a)))
              @ nl)))
          (enumerate 0 (initial_keys example_env (GeoBase example_env (base ?a) (verbose ?a)) ?a)),
        Inr ())"
      by (rule main_quiet_no_stage [OF v])
         (simp_all add: example_GeoBase k,
          simp_all add: quiet_name_args_def default_args_def example_store_def)
    then show ?thesis unfolding example_GeoBase k by simp
  qed
  have a: "main example_env quiet_name_args
     = ([Out (Raw (''Paris-Orly'' @ nl)), Out (Raw (''Paris-Charles-de-Gaulle'' @ nl))], Inr ())"
    using run [of "[''name'']"]
    by (simp add: quiet_name_args_def default_args_def example_store_def example_name_def)
  have b: "main example_env (quiet_name_args\<lparr>show_fields := [''__ref__'', ''name'']\<rparr>)
     = ([Out (Raw (''0.000^Paris-Orly'' @ nl)),
         Out (Raw (''1.000^Paris-Charles-de-Gaulle'' @ nl))], Inr ())"
    using run [of "[''__ref__'', ''name'']"]
    by (simp add: str_nat_0 str_nat_1 quiet_name_args_def default_args_def example_store_def
        example_name_def)
  from a b show ?thesis by blast
qed

subsection \<open>The limit\<close>













subsection \<open>A geocode that cannot be resolved\<close>

lemma announce_returns: "announce env a = (fst (announce env a), Inr ())"
  by (simp add: announce_def py_print_def)

lemma scan_coords_absent_key:
  assumes "\<not> list_all float_syntax (coord_tokens u)" and "\<not> contains g u"
  shows "scan_coords env u g v = ([Err (key_warning g u)], Inl (SysExit 1))"
  using assms by (simp add: scan_coords_def warn_key io_bind_def io_fail_def)

lemma scan_coords_bad_count:
  assumes "list_all float_syntax (coord_tokens u)" and "length (coord_tokens u) \<noteq> 2"
  shows "scan_coords env u g v
     = ([Err (nl @ bang @ '' Bad geocode format: '' @ u @ nl)], Inl (SysExit 1))"
proof -
  have "error (Geocode_format u)
      = ([Err (nl @ bang @ '' Bad geocode format: '' @ u @ nl)], Inl (SysExit 1) :: failure + 'a \<times> 'a)"
    by (simp add: error_def py_print_err_def io_bind_def io_fail_def)
  moreover have "length (map (float_of env) (coord_tokens u)) \<noteq> 2"
    using assms(2) by simp
  ultimately show ?thesis
    using assms(1)
    by (cases "map (float_of env) (coord_tokens u)" rule: list.exhaust [case_names Nil Cons])
       (auto simp: scan_coords_def split: list.splits)
qed

lemma main_near_abort:
  assumes v: "valid_args env a" and n: "near a = Some u"
    and s: "scan_coords env u (GeoBase env (base a) (verbose a)) (\<not> quiet a) = (es, Inl e)"
  shows "main env a
     = ((if quiet a then []
         else [Out (Raw (''Loading GeoBase...'' @ nl))] @ fst (announce env a)
           @ (case trep a of
                None \<Rightarrow> []
              | Some ws \<Rightarrow>
                  [Out (Raw (''Applying opentrep on '' @ dquote @ join '' '' ws @ dquote
                             @ '' [output '' @ trep_format a @ '']'' @ nl))])
           @ (case exact a of
                None \<Rightarrow> []
              | Some x \<Rightarrow>
                  [Out (Raw (''Applying property '' @ exact_property a @ '' = '' @ dquote
                             @ x @ dquote @ nl))])
           @ [Out (Raw (''Applying near '' @ str_float env (near_limit a) @ '' kms'' @ nl))])
        @ es, Inl e)"
proof -
  obtain evs where an: "announce env a = (evs, Inr ())"
    using announce_returns by blast
  show ?thesis
    unfolding main_valid [OF v]
    by (simp add: pipeline_def Let_def n s an io_bind_def io_when_def py_print_def io_ret_def
        split: option.splits)
qed

lemma main_closest_abort:
  assumes v: "valid_args env a" and n: "near a = None" and c: "closest a = Some u"
    and s: "scan_coords env u (GeoBase env (base a) (verbose a)) (\<not> quiet a) = (es, Inl e)"
  shows "main env a
     = ((if quiet a then []
         else [Out (Raw (''Loading GeoBase...'' @ nl))] @ fst (announce env a)
           @ (case trep a of
                None \<Rightarrow> []
              | Some ws \<Rightarrow>
                  [Out (Raw (''Applying opentrep on '' @ dquote @ join '' '' ws @ dquote
                             @ '' [output '' @ trep_format a @ '']'' @ nl))])
           @ (case exact a of
                None \<Rightarrow> []
              | Some x \<Rightarrow>
                  [Out (Raw (''Applying property '' @ exact_property a @ '' = '' @ dquote
                             @ x @ dquote @ nl))])
           @ [Out (Raw (''Applying closest '' @ str_int (closest_limit a) @ nl))])
        @ es, Inl e)"
proof -
  obtain evs where an: "announce env a = (evs, Inr ())"
    using announce_returns by blast
  show ?thesis
    unfolding main_valid [OF v]
    by (simp add: pipeline_def Let_def n c s an io_bind_def io_when_def py_print_def io_ret_def
        split: option.splits)
qed

lemma str_nat_50: "str_nat 50 = ''50''"
  by (subst str_nat.simps) (simp add: str_nat_digit digit_char_def char_of_eq_iff)

lemma coord_tokens_three: "coord_tokens ''48.85,2.35,1'' = [''48.85'', ''2.35'', ''1'']"
  by (simp add: coord_tokens_def strip_by_def is_paren_def)

lemma float_syntax_three: "list_all float_syntax [''48.85'', ''2.35'', ''1'']"
  by (simp add: float_syntax_def py_strip_def strip_by_def is_space_def drop_sign_def
      lower_def decimal_syntax_def exponent_ok_def is_digit_def char_of_eq_iff)

lemma geocode_args_valid:
  "valid_args example_env (default_args\<lparr>near := n, closest := c, quiet := q\<rparr>)"
  by (simp add: valid_args_def default_args_def example_env_def example_store_def)

text \<open>
  Claim C7, as the code has it. A geocode whose tokens between commas, inside the optional
  parentheses, all read as floats and are not exactly two makes \<open>scan_coords\<close> write the
  message \<open>Bad geocode format\<close> to the error stream and exit with status 1, whatever the
  store holds: the text is not looked up as a key. A run of \<open>main\<close> whose first geocode
  stage meets such a text ends in the same way and renders no result; in quiet mode the
  message is all it writes, in interactive mode the progress lines written so far come
  before it on standard output.
\<close>

theorem bad_geocode_count_exits:
  "(list_all float_syntax (coord_tokens u) \<and> length (coord_tokens u) \<noteq> 2 \<longrightarrow>
      scan_coords env u g v
        = ([Err (nl @ bang @ '' Bad geocode format: '' @ u @ nl)], Inl (SysExit 1)))
   \<and> (valid_args env a \<and> near a = Some u
        \<and> list_all float_syntax (coord_tokens u) \<and> length (coord_tokens u) \<noteq> 2 \<longrightarrow>
      main env a
        = ((if quiet a then []
              else [Out (Raw (''Loading GeoBase...'' @ nl))] @ fst (announce env a)
                @ (case trep a of
                     None \<Rightarrow> []
                   | Some ws \<Rightarrow>
                       [Out (Raw (''Applying opentrep on '' @ dquote @ join '' '' ws @ dquote
                                  @ '' [output '' @ trep_format a @ '']'' @ nl))])
                @ (case exact a of
                     None \<Rightarrow> []
                   | Some x \<Rightarrow>
                       [Out (Raw (''Applying property '' @ exact_property a @ '' = '' @ dquote
                                  @ x @ dquote @ nl))])
                @ [Out (Raw (''Applying near '' @ str_float env (near_limit a) @ '' kms'' @ nl))])
             @ [Err (nl @ bang @ '' Bad geocode format: '' @ u @ nl)], Inl (SysExit 1)))
   \<and> (valid_args env a \<and> near a = None \<and> closest a = Some u
        \<and> list_all float_syntax (coord_tokens u) \<and> length (coord_tokens u) \<noteq> 2 \<longrightarrow>
      main env a
        = ((if quiet a then []
              else [Out (Raw (''Loading GeoBase...'' @ nl))] @ fst (announce env a)
                @ (case trep a of
                     None \<Rightarrow> []
                   | Some ws \<Rightarrow>
                       [Out (Raw (''Applying opentrep on '' @ dquote @ join '' '' ws @ dquote
                                  @ '' [output '' @ trep_format a @ '']'' @ nl))])
                @ (case exact a of
                     None \<Rightarrow> []
                   | Some x \<Rightarrow>
                       [Out (Raw (''Applying property '' @ exact_property a @ '' = '' @ dquote
                                  @ x @ dquote @ nl))])
                @ [Out (Raw (''Applying closest '' @ str_int (closest_limit a) @ nl))])
             @ [Err (nl @ bang @ '' Bad geocode format: '' @ u @ nl)], Inl (SysExit 1)))"
  using scan_coords_bad_count [of u env g v]
    main_near_abort [of env a u, OF _ _ scan_coords_bad_count]
    main_closest_abort [of env a u, OF _ _ _ scan_coords_bad_count]
  by blast

theorem bad_geocode_count_exits_witness:
  "list_all float_syntax (coord_tokens ''48.85,2.35,1'')
   \<and> length (coord_tokens ''48.85,2.35,1'') = 3
   \<and> valid_args example_env (default_args\<lparr>near := Some ''48.85,2.35,1'', quiet := True\<rparr>)
   \<and> scan_coords example_env ''48.85,2.35,1''
        (example_store\<lparr>contains := (\<lambda>k. True)\<rparr>) False
       = ([Err (nl @ bang @ '' Bad geocode format: 48.85,2.35,1'' @ nl)], Inl (SysExit 1))
   \<and> main example_env (default_args\<lparr>near := Some ''48.85,2.35,1'', quiet := True\<rparr>)
       = ([Err (nl @ bang @ '' Bad geocode format: 48.85,2.35,1'' @ nl)], Inl (SysExit 1))"
proof -
  let ?u = "''48.85,2.35,1''"
  let ?a = "default_args\<lparr>near := Some ?u, quiet := True\<rparr>"
  have f: "list_all float_syntax (coord_tokens ?u)"
    unfolding coord_tokens_three by (rule float_syntax_three)
  have l: "length (coord_tokens ?u) = 3"
    unfolding coord_tokens_three by simp
  have v: "valid_args example_env ?a"
    using geocode_args_valid [where n = "Some ?u" and c = None and q = True] by (simp add: default_args_def)
  have n: "near ?a = Some ?u" and q: "quiet ?a"
    by simp_all
  from bad_geocode_count_exits
    [of ?u example_env "example_store\<lparr>contains := (\<lambda>k. True)\<rparr>" False ?a] f l v n
  have "scan_coords example_env ?u (example_store\<lparr>contains := (\<lambda>k. True)\<rparr>) False
          = ([Err (nl @ bang @ '' Bad geocode format: '' @ ?u @ nl)], Inl (SysExit 1))"
    and "main example_env ?a
          = ([Err (nl @ bang @ '' Bad geocode format: '' @ ?u @ nl)], Inl (SysExit 1))"
    by (simp_all add: q)
  with f l v show ?thesis by simp
qed

text \<open>
  Claim C7, as stated, fails in interactive mode: with the geocode \<open>48.85,2.35,1\<close> given to
  \<^verbatim>\<open>--near\<close>, three lines are on standard output before the message and the exit.
\<close>

theorem bad_geocode_after_progress_lines:
  "main example_env (default_args\<lparr>near := Some ''48.85,2.35,1''\<rparr>)
     = ([Out (Raw (''Loading GeoBase...'' @ nl)),
         Out (Raw (''Looking for matches from *all* data...'' @ nl)),
         Out (Raw (''Applying near 50.0 kms'' @ nl)),
         Err (nl @ bang @ '' Bad geocode format: 48.85,2.35,1'' @ nl)],
        Inl (SysExit 1))"
proof -
  let ?u = "''48.85,2.35,1''"
  let ?a = "default_args\<lparr>near := Some ?u\<rparr>"
  have f: "list_all float_syntax (coord_tokens ?u)"
    unfolding coord_tokens_three by (rule float_syntax_three)
  have l: "length (coord_tokens ?u) \<noteq> 2"
    unfolding coord_tokens_three by simp
  have v: "valid_args example_env ?a"
    using geocode_args_valid [where n = "Some ?u" and c = None and q = False] by (simp add: default_args_def)
  have n: "near ?a = Some ?u" by simp
  have p: "fst (announce example_env ?a)
             = [Out (Raw (''Looking for matches from *all* data...'' @ nl))]"
    by (simp add: announce_def example_env_def default_args_def py_print_def)
  have k: "str_float example_env (near_limit ?a) = ''50.0''"
    by (simp add: example_env_def default_args_def str_int_def str_nat_50)
  have t: "trep ?a = None" "exact ?a = None" "\<not> quiet ?a"
    by (simp_all add: default_args_def)
  show ?thesis
    unfolding main_near_abort [OF v n scan_coords_bad_count [OF f l]] p k
    by (simp add: t)
qed

subsection \<open>Keys that are not in the store\<close>

lemma display_phase_warns:
  "display_phase env g a L
     = (\<lambda>res. io_bind
          (map (\<lambda>k. Err (key_warning g k))
             (filter (\<lambda>k. \<not> contains g k) (map snd (limiter L res))), Inr ())
          (\<lambda>_. if \<not> quiet a then
                 io_bind (display env g (filter (\<lambda>(h, k). contains g k) (limiter L res))
                            (set (omit a)) (show_fields a) (important_of a))
                   (\<lambda>_. py_print (nl @ ''Done in '' @ elapsed env))
               else display_quiet env g (filter (\<lambda>(h, k). contains g k) (limiter L res))
                      (set (omit a)) (show_fields a)))"
  by (rule ext) (simp add: display_phase_def Let_def warn_unknown_events remove_unknown_def)

lemma main_warns:
  assumes "valid_args env a"
  shows "main env a
     = io_bind (io_when (\<not> quiet a) (py_print ''Loading GeoBase...''))
         (\<lambda>_. io_bind (io_when (\<not> quiet a) (announce env a))
         (\<lambda>_. io_bind (pipeline env (GeoBase env (base a) (verbose a)) a
                         (enumerate_keys (initial_keys env (GeoBase env (base a) (verbose a)) a)))
         (\<lambda>res. io_bind
            (map (\<lambda>k. Err (key_warning (GeoBase env (base a) (verbose a)) k))
               (filter (\<lambda>k. \<not> contains (GeoBase env (base a) (verbose a)) k)
                  (map snd (limiter (limit_value a) res))), Inr ())
            (\<lambda>_. if \<not> quiet a then
                   io_bind (display env (GeoBase env (base a) (verbose a))
                              (filter (\<lambda>(h, k). contains (GeoBase env (base a) (verbose a)) k)
                                 (limiter (limit_value a) res))
                              (set (omit a)) (show_fields a) (important_of a))
                     (\<lambda>_. py_print (nl @ ''Done in '' @ elapsed env))
                 else display_quiet env (GeoBase env (base a) (verbose a))
                        (filter (\<lambda>(h, k). contains (GeoBase env (base a) (verbose a)) k)
                           (limiter (limit_value a) res))
                        (set (omit a)) (show_fields a)))))"
  using main_valid [OF assms] unfolding display_phase_warns .

lemma main_geocode_key_abort:
  assumes v: "valid_args env a"
    and n: "near a = Some u \<or> near a = None \<and> closest a = Some u"
    and f: "\<not> list_all float_syntax (coord_tokens u)"
    and c: "\<not> contains (GeoBase env (base a) (verbose a)) u"
  shows "snd (main env a) = Inl (SysExit 1)"
    and "quiet a \<Longrightarrow>
         main env a = ([Err (key_warning (GeoBase env (base a) (verbose a)) u)], Inl (SysExit 1))"
  using n main_near_abort [OF v _ scan_coords_absent_key [OF f c]]
    main_closest_abort [OF v _ _ scan_coords_absent_key [OF f c]]
  by auto

lemma ORY_line:
  "display_quiet example_env example_store [(h, ''ORY'')] {} [''name'']
     = ([Out (Raw (''Paris-Orly'' @ nl))], Inr ())"
  by (simp add: display_quiet_def)
     (simp add: example_store_def example_name_def stdout_write_def io_bind_def io_ret_def)

lemma float_syntax_XXX: "\<not> list_all float_syntax (coord_tokens ''XXX'')"
  by (simp add: coord_tokens_def strip_by_def is_paren_def float_syntax_def py_strip_def
      is_space_def drop_sign_def lower_def decimal_syntax_def is_digit_def char_of_eq_iff)

text \<open>
  Claim C2, as the code has it. A run of \<open>main\<close> with valid arguments writes, after the
  search, one warning for each key of the limited result that is not in the store, in
  order, goes on, and renders the entries whose key is in the store. A key given as the
  geocode of \<^verbatim>\<open>--near\<close> or \<^verbatim>\<open>--closest\<close> is another matter: when the text does not read
  as floats and is not a key of the store, \<open>scan_coords\<close> writes the same warning and exits
  with status 1, and so does the run: nothing is rendered.
\<close>

theorem absent_key_warns_geocode_key_exits:
  "(valid_args env a \<longrightarrow>
      main env a
        = io_bind (io_when (\<not> quiet a) (py_print ''Loading GeoBase...''))
            (\<lambda>_. io_bind (io_when (\<not> quiet a) (announce env a))
            (\<lambda>_. io_bind (pipeline env (GeoBase env (base a) (verbose a)) a
                            (enumerate_keys
                               (initial_keys env (GeoBase env (base a) (verbose a)) a)))
            (\<lambda>res. io_bind
               (map (\<lambda>k. Err (key_warning (GeoBase env (base a) (verbose a)) k))
                  (filter (\<lambda>k. \<not> contains (GeoBase env (base a) (verbose a)) k)
                     (map snd (limiter (limit_value a) res))), Inr ())
               (\<lambda>_. if \<not> quiet a then
                      io_bind (display env (GeoBase env (base a) (verbose a))
                                 (filter
                                    (\<lambda>(h, k). contains (GeoBase env (base a) (verbose a)) k)
                                    (limiter (limit_value a) res))
                                 (set (omit a)) (show_fields a) (important_of a))
                        (\<lambda>_. py_print (nl @ ''Done in '' @ elapsed env))
                    else display_quiet env (GeoBase env (base a) (verbose a))
                           (filter (\<lambda>(h, k). contains (GeoBase env (base a) (verbose a)) k)
                              (limiter (limit_value a) res))
                           (set (omit a)) (show_fields a))))))
   \<and> (\<not> list_all float_syntax (coord_tokens u) \<and> \<not> contains g u \<longrightarrow>
        scan_coords env u g v = ([Err (key_warning g u)], Inl (SysExit 1)))
   \<and> (valid_args env a \<and> (near a = Some u \<or> near a = None \<and> closest a = Some u)
        \<and> \<not> list_all float_syntax (coord_tokens u)
        \<and> \<not> contains (GeoBase env (base a) (verbose a)) u \<longrightarrow>
        snd (main env a) = Inl (SysExit 1)
        \<and> (quiet a \<longrightarrow>
             main env a
               = ([Err (key_warning (GeoBase env (base a) (verbose a)) u)],
                  Inl (SysExit 1))))"
  using main_warns [of env a] scan_coords_absent_key [of u g env v]
    main_geocode_key_abort [of env a u]
  by blast

theorem absent_key_warns_geocode_key_exits_witness:
  "valid_args example_env (quiet_name_args\<lparr>keys := [''XXX'', ''ORY'']\<rparr>)
   \<and> main example_env (quiet_name_args\<lparr>keys := [''XXX'', ''ORY'']\<rparr>)
       = ([Err (key_warning example_store ''XXX''), Out (Raw (''Paris-Orly'' @ nl))], Inr ())
   \<and> valid_args example_env (default_args\<lparr>near := Some ''XXX'', quiet := True\<rparr>)
   \<and> \<not> list_all float_syntax (coord_tokens ''XXX'')
   \<and> \<not> contains example_store ''XXX''
   \<and> scan_coords example_env ''XXX'' example_store False
       = ([Err (key_warning example_store ''XXX'')], Inl (SysExit 1))
   \<and> main example_env (default_args\<lparr>near := Some ''XXX'', quiet := True\<rparr>)
       = ([Err (key_warning example_store ''XXX'')], Inl (SysExit 1))"
proof -
  let ?a = "quiet_name_args\<lparr>keys := [''XXX'', ''ORY'']\<rparr>"
  let ?b = "default_args\<lparr>near := Some ''XXX'', quiet := True\<rparr>"
  have va: "valid_args example_env ?a"
    by (simp add: valid_args_def quiet_name_args_def default_args_def example_env_def
        example_store_def)
  have vb: "valid_args example_env ?b"
    using geocode_args_valid [where n = "Some ''XXX''" and c = None and q = True] by (simp add: default_args_def)
  have c: "\<not> contains example_store ''XXX''"
    by (simp add: example_store_def)
  have k: "initial_keys example_env example_store ?a = [''XXX'', ''ORY'']"
    by (simp add: initial_keys_def example_env_def quiet_name_args_def default_args_def)
  have q: "quiet ?a" "omit ?a = []" "show_fields ?a = [''name'']" "limit_value ?a = None"
    by (simp_all add: quiet_name_args_def default_args_def limit_value_def)
  have p: "pipeline example_env example_store ?a res = io_ret res" for res
    by (rule pipeline_no_stage) (simp_all add: quiet_name_args_def default_args_def)
  have s: "contains example_store ''ORY''"
    by (simp add: example_store_def)
  have d: "io_bind ([Err (key_warning example_store ''XXX'')], Inr ())
             (\<lambda>_. display_quiet example_env example_store [(h, ''ORY'')] {} [''name''])
           = ([Err (key_warning example_store ''XXX''), Out (Raw (''Paris-Orly'' @ nl))], Inr ())"
    for h
    unfolding ORY_line by (simp add: io_bind_def)
  note inst_a = absent_key_warns_geocode_key_exits
    [of example_env ?a "''XXX''" example_store False]
  note inst_b = absent_key_warns_geocode_key_exits
    [of example_env ?b "''XXX''" example_store False]
  have "main example_env ?a
        = ([Err (key_warning example_store ''XXX''), Out (Raw (''Paris-Orly'' @ nl))], Inr ())"
    using inst_a [THEN conjunct1] va unfolding example_GeoBase k p
    by (simp add: q c s enumerate_keys_def limiter_def d)
  moreover have "scan_coords example_env ''XXX'' example_store False
       = ([Err (key_warning example_store ''XXX'')], Inl (SysExit 1))"
    using inst_b [THEN conjunct2, THEN conjunct1] float_syntax_XXX c by blast
  moreover have "main example_env ?b
       = ([Err (key_warning example_store ''XXX'')], Inl (SysExit 1))"
    using inst_b [THEN conjunct2, THEN conjunct2] vb float_syntax_XXX c
    unfolding example_GeoBase by simp
  ultimately show ?thesis
    using va vb float_syntax_XXX c by blast
qed

text \<open>
  Claim C2, as stated, fails: with \<open>XXX\<close>, which is not a key of the store, given to
  \<^verbatim>\<open>--closest\<close> in quiet mode, the run writes the warning and exits with status 1.
\<close>

theorem absent_geocode_key_aborts:
  "main example_env (default_args\<lparr>closest := Some ''XXX'', quiet := True\<rparr>)
     = ([Err (key_warning example_store ''XXX'')], Inl (SysExit 1))"
proof -
  let ?a = "default_args\<lparr>closest := Some ''XXX'', quiet := True\<rparr>"
  have v: "valid_args example_env ?a"
    using geocode_args_valid [where n = None and c = "Some ''XXX''" and q = True] by (simp add: default_args_def)
  have c: "\<not> contains (GeoBase example_env (base ?a) (verbose ?a)) ''XXX''"
    by (simp add: example_GeoBase) (simp add: example_store_def)
  have n: "near ?a = None \<and> closest ?a = Some ''XXX''"
    by (simp add: default_args_def)
  have q: "quiet ?a" by simp
  show ?thesis
    using main_geocode_key_abort(2) [OF v disjI2 [OF n] float_syntax_XXX c q]
    by (simp add: example_GeoBase)
qed

end
